theory Spec2Isabelle
  imports Main "HOL-Library.AList"
begin

section \<open>XML element trees\<close>

text \<open>
  The report parser works on the element trees of Python's \<open>xml.etree.ElementTree\<close>.
  An element has a tag, an attribute dictionary, an optional text (the text before its
  first child; \<open>None\<close> when there is none) and its children in document order.
  A Python string is modelled by the \<open>string\<close> of its UTF-8 bytes: equality,
  concatenation and the search for an ASCII substring are the same on the bytes as on
  the code points. A dictionary that keeps insertion order is an association list
  written with \<open>AList.update\<close> (a new key goes to the end, an old key keeps its place)
  and read with \<open>map_of\<close>.
\<close>

datatype xml =
  Element (elem_tag: string) (elem_attrib: "(string \<times> string) list")
          (elem_text: "string option") (elem_children: "xml list")

text \<open>\<open>Element.iter()\<close>: the element and all its descendants, in document order.\<close>

fun iter :: "xml \<Rightarrow> xml list" where
  "iter (Element t a tx cs) = Element t a tx cs # concat (map iter cs)"

text \<open>The path \<open>.//tag\<close>: every descendant with that tag, the element itself excluded.\<close>

definition findall_desc :: "string \<Rightarrow> xml \<Rightarrow> xml list" where
  "findall_desc t e = filter (\<lambda>x. elem_tag x = t) (concat (map iter (elem_children e)))"

text \<open>The path \<open>.//outer/inner\<close>: the \<open>inner\<close> children of every \<open>outer\<close> descendant.\<close>

definition findall_desc_child :: "string \<Rightarrow> string \<Rightarrow> xml \<Rightarrow> xml list" where
  "findall_desc_child outer inner e =
     concat (map (\<lambda>p. filter (\<lambda>x. elem_tag x = inner) (elem_children p)) (findall_desc outer e))"

text \<open>\<open>find\<close> returns the first match of \<open>findall\<close>, or \<open>None\<close>.\<close>

definition first_of :: "'a list \<Rightarrow> 'a option" where
  "first_of xs = (case xs of [] \<Rightarrow> None | x # _ \<Rightarrow> Some x)"

definition find_desc :: "string \<Rightarrow> xml \<Rightarrow> xml option" where
  "find_desc t e = first_of (findall_desc t e)"

definition find_desc_child :: "string \<Rightarrow> string \<Rightarrow> xml \<Rightarrow> xml option" where
  "find_desc_child outer inner e = first_of (findall_desc_child outer inner e)"

text \<open>\<open>Element.get(key)\<close> is \<open>None\<close> for a missing attribute.\<close>

definition get_attr :: "xml \<Rightarrow> string \<Rightarrow> string option" where
  "get_attr e k = map_of (elem_attrib e) k"

definition get_attr_default :: "xml \<Rightarrow> string \<Rightarrow> string \<Rightarrow> string" where
  "get_attr_default e k d = (case map_of (elem_attrib e) k of None \<Rightarrow> d | Some v \<Rightarrow> v)"

section \<open>Strings\<close>

text \<open>
  \<open>str.strip()\<close> removes the leading and the trailing whitespace characters. The
  whitespace characters of Python are the code points below; in the text they stand
  as their UTF-8 encodings, of one, two or three bytes.
\<close>

definition whitespace_code_points :: "nat list" where
  "whitespace_code_points =
     [0x09, 0x0A, 0x0B, 0x0C, 0x0D, 0x1C, 0x1D, 0x1E, 0x1F, 0x20, 0x85, 0xA0, 0x1680,
      0x2000, 0x2001, 0x2002, 0x2003, 0x2004, 0x2005, 0x2006, 0x2007, 0x2008, 0x2009, 0x200A,
      0x2028, 0x2029, 0x202F, 0x205F, 0x3000]"

definition utf8 :: "nat \<Rightarrow> nat list" where
  "utf8 n =
     (if n < 0x80 then [n]
      else if n < 0x800 then [0xC0 + n div 0x40, 0x80 + n mod 0x40]
      else if n < 0x10000 then [0xE0 + n div 0x1000, 0x80 + n div 0x40 mod 0x40, 0x80 + n mod 0x40]
      else [0xF0 + n div 0x40000, 0x80 + n div 0x1000 mod 0x40, 0x80 + n div 0x40 mod 0x40,
            0x80 + n mod 0x40])"

text \<open>
  Dropping, from the front of a text, every occurrence of one of the given byte
  sequences, until none of them is at the front.
\<close>

fun drop_leading :: "nat list list \<Rightarrow> string \<Rightarrow> string" where
  "drop_leading ws [] = []"
| "drop_leading ws (c # cs) =
     (case find (\<lambda>w. w \<noteq> [] \<and> map of_char (take (length w) (c # cs)) = w) ws of
        None \<Rightarrow> c # cs
      | Some w \<Rightarrow> drop_leading ws (drop (length w - 1) cs))"

definition strip :: "string \<Rightarrow> string" where
  "strip s =
     rev (drop_leading (map (rev \<circ> utf8) whitespace_code_points)
            (rev (drop_leading (map utf8 whitespace_code_points) s)))"

text \<open>The idiom \<open>x.text.strip() if x.text else ''\<close>: a missing or empty text gives \<open>''\<close>.\<close>

definition stripped_text :: "xml \<Rightarrow> string" where
  "stripped_text e = (case elem_text e of None \<Rightarrow> [] | Some s \<Rightarrow> if s = [] then [] else strip s)"

text \<open>How an f-string prints a value that may be \<open>None\<close>.\<close>

definition fmt :: "string option \<Rightarrow> string" where
  "fmt v = (case v of None \<Rightarrow> ''None'' | Some s \<Rightarrow> s)"

text \<open>Truth value of an optional string in a condition: \<open>None\<close> and \<open>''\<close> are false.\<close>

definition truthy :: "string option \<Rightarrow> bool" where
  "truthy v = (case v of None \<Rightarrow> False | Some s \<Rightarrow> s \<noteq> [])"

section \<open>Schema extraction and record normalisation\<close>

text \<open>
  \<open>get_report_headers\<close>: one entry per \<open>FieldDefinition\<close> descendant, from its \<open>id\<close> to
  its \<open>name\<close>; either attribute may be missing, and a later entry for the same id
  overwrites the earlier one.
\<close>

type_synonym headers_dict = "(string option \<times> string option) list"

definition get_report_headers :: "xml \<Rightarrow> headers_dict" where
  "get_report_headers xml_tree =
     fold (\<lambda>field d. AList.update (get_attr field ''id'') (get_attr field ''name'') d)
          (findall_desc ''FieldDefinition'' xml_tree) []"

definition extract_list_value :: "xml \<Rightarrow> string option" where
  "extract_list_value field =
     (case find_desc_child ''ListValues'' ''ListValue'' field of
        Some list_value_element \<Rightarrow> get_attr list_value_element ''displayName''
      | None \<Rightarrow> None)"

definition extract_reference :: "xml \<Rightarrow> string option" where
  "extract_reference field =
     (case find_desc ''Reference'' field of
        Some reference_element \<Rightarrow> Some (stripped_text reference_element)
      | None \<Rightarrow> None)"

record user_data =
  email :: string
  firstName :: string
  lastName :: string

definition extract_users :: "xml \<Rightarrow> user_data option" where
  "extract_users field =
     (case find_desc_child ''Users'' ''User'' field of
        Some user_element \<Rightarrow>
          Some \<lparr> email = stripped_text user_element,
                 firstName = get_attr_default user_element ''firstName'' [],
                 lastName = get_attr_default user_element ''lastName'' [] \<rparr>
      | None \<Rightarrow> None)"

text \<open>
  A record is a dictionary from field names to strings. The name of a field is looked
  up in the schema under the field's id, with \<open>Field_<id>\<close> as the default; it is
  \<open>None\<close> when the schema holds the id with no name.
\<close>

type_synonym record_dict = "(string option \<times> string) list"

definition field_name_of :: "headers_dict \<Rightarrow> xml \<Rightarrow> string option" where
  "field_name_of report_headers field =
     (let field_id = get_attr field ''id'' in
      case map_of report_headers field_id of
        Some n \<Rightarrow> n
      | None \<Rightarrow> Some (''Field_'' @ fmt field_id))"

text \<open>The body of the loop over the fields of one record.\<close>

definition process_field :: "headers_dict \<Rightarrow> record_dict \<Rightarrow> xml \<Rightarrow> record_dict" where
  "process_field report_headers record_dict field =
     (let field_value = stripped_text field;
          field_name = field_name_of report_headers field
      in if field_value = [] then
           (let extracted_list_value = extract_list_value field;
                extracted_reference = extract_reference field;
                extracted_user = extract_users field
            in if truthy extracted_list_value then
                 AList.update field_name (the extracted_list_value) record_dict
               else if truthy extracted_reference then
                 AList.update field_name (the extracted_reference) record_dict
               else (case extracted_user of
                       Some u \<Rightarrow>
                         AList.update field_name (email u)
                           (AList.update (Some (fmt field_name @ ''_LastName'')) (lastName u)
                             (AList.update (Some (fmt field_name @ ''_FirstName'')) (firstName u)
                                record_dict))
                     | None \<Rightarrow> AList.update field_name field_value record_dict))
         else AList.update field_name field_value record_dict)"

definition record_of :: "headers_dict \<Rightarrow> xml \<Rightarrow> record_dict" where
  "record_of report_headers record =
     fold (\<lambda>field d. process_field report_headers d field) (findall_desc ''Field'' record) []"

definition get_report_records :: "xml \<Rightarrow> headers_dict \<Rightarrow> record_dict list" where
  "get_report_records xml_tree report_headers =
     map (record_of report_headers) (findall_desc ''Record'' xml_tree)"

section \<open>Templates, requests and the response unwrapper\<close>

datatype error =
  FileNotFoundError | KeyError | RequestException | ParseError | AttributeError
  | TypeError | SecretNotFound

text \<open>
  The request templates and header files are not part of the sources. A template is
  taken in parsed form: literal text and named replacement fields, which is what
  \<open>str.format\<close> sees in it. \<open>str.format\<close> raises \<open>KeyError\<close> for a replacement field
  with no keyword argument.
\<close>

datatype piece = Lit string | Hole string

type_synonym template = "piece list"

fun format_str :: "template \<Rightarrow> (string \<times> string) list \<Rightarrow> error + string" where
  "format_str [] kw = Inr []"
| "format_str (Lit s # ps) kw =
     (case format_str ps kw of Inl e \<Rightarrow> Inl e | Inr r \<Rightarrow> Inr (s @ r))"
| "format_str (Hole k # ps) kw =
     (case map_of kw k of
        None \<Rightarrow> Inl KeyError
      | Some v \<Rightarrow> (case format_str ps kw of Inl e \<Rightarrow> Inl e | Inr r \<Rightarrow> Inr (v @ r)))"

text \<open>\<open>str(n)\<close> for a natural number: its decimal digits.\<close>

fun str_nat :: "nat \<Rightarrow> string" where
  "str_nat n = (if n < 10 then [''0123456789'' ! n]
                else str_nat (n div 10) @ [''0123456789'' ! (n mod 10)])"

declare str_nat.simps [simp del]

text \<open>\<open>sub in s\<close> for strings.\<close>

fun contains :: "string \<Rightarrow> string \<Rightarrow> bool" where
  "contains sub [] = (sub = [])"
| "contains sub (c # cs) = (take (length sub) (c # cs) = sub \<or> contains sub cs)"

record response =
  status_code :: nat
  resp_text :: string

text \<open>
  A cell of the table after enrichment: a string as normalised, a date (a day number,
  \<open>None\<close> for the null date) or a number (\<open>None\<close> for not-a-number). A cell that a row
  does not have is a missing value.
\<close>

datatype cell = Str string | Datetime "int option" | Number "int option"

type_synonym enriched_row = "(string option \<times> cell) list"

type_synonym http_headers = "(string \<times> string) list"

text \<open>
  Everything outside the program that a run reads: the template and header files, the
  secret vault, the configuration constants (from a module that is not part of the
  sources), the web service, the XML parser \<open>ET.fromstring\<close> (\<open>None\<close> when it raises
  \<open>ParseError\<close>), the date conversion of the table library, the current day and the
  storage upload (\<open>True\<close> when the encoded table was written). The web service
  answers a request by its url, body and headers, or the transport raises. The date
  conversion \<open>pd.to_datetime(column, errors='coerce', dayfirst=True).dt.normalize()\<close>
  is applied to a whole column: \<open>to_datetime E column i\<close> is the date it gives the cell
  at position \<open>i\<close> of the column (\<open>None\<close> is the null date; a date is a day number),
  which may depend on the other cells of the column.
\<close>

record env =
  xml_templates :: "string \<Rightarrow> template option"
  header_files :: "string \<Rightarrow> http_headers option"
  get_secret :: "string \<Rightarrow> string option"
  ARCHER_PROD_URL :: string
  INCIDENT_REPORT_TOKEN :: string
  post :: "string \<Rightarrow> string \<Rightarrow> http_headers \<Rightarrow> error + response"
  fromstring :: "string \<Rightarrow> xml option"
  to_datetime :: "cell option list \<Rightarrow> nat \<Rightarrow> int option"
  today :: int
  store :: "enriched_row list \<Rightarrow> bool"

definition load_template :: "env \<Rightarrow> string \<Rightarrow> error + template" where
  "load_template E template_path =
     (case xml_templates E template_path of None \<Rightarrow> Inl FileNotFoundError | Some t \<Rightarrow> Inr t)"

definition load_headers :: "env \<Rightarrow> string \<Rightarrow> error + http_headers" where
  "load_headers E header_path =
     (case header_files E header_path of None \<Rightarrow> Inl FileNotFoundError | Some h \<Rightarrow> Inr h)"

text \<open>
  \<open>archer_incident_report_xml\<close>. The token is whatever the authentication returned,
  which may be \<open>None\<close>; \<open>str.format\<close> prints it as an f-string would.
\<close>

definition archer_incident_report_xml :: "env \<Rightarrow> string option \<Rightarrow> string \<Rightarrow> nat \<Rightarrow> error + string" where
  "archer_incident_report_xml E archer_token archer_incident_report_guid archer_page_number =
     (case load_template E ''templates/xml/archer_incident_report.xml'' of
        Inl e \<Rightarrow> Inl e
      | Inr xml_template \<Rightarrow>
          format_str xml_template
            [(''archer_token'', fmt archer_token),
             (''archer_incident_report_guid'', archer_incident_report_guid),
             (''archer_page_number'', str_nat archer_page_number)])"

definition webservices_ns :: string where
  "webservices_ns = ''{http://archer-tech.com/webservices/}''"

text \<open>
  \<open>response_to_xml\<close>: parse the envelope, find the result element, parse its text.
  A missing result element raises \<open>AttributeError\<close> (the text of \<open>None\<close>), a result
  element without text raises \<open>TypeError\<close>. The status code is not read.
\<close>

definition response_to_xml :: "env \<Rightarrow> response \<Rightarrow> string \<Rightarrow> error + xml" where
  "response_to_xml E response request_type =
     (case fromstring E (resp_text response) of
        None \<Rightarrow> Inl ParseError
      | Some envelope \<Rightarrow>
          (case find_desc (webservices_ns @ request_type) envelope of
             None \<Rightarrow> Inl AttributeError
           | Some result \<Rightarrow>
               (case elem_text result of
                  None \<Rightarrow> Inl TypeError
                | Some inner \<Rightarrow>
                    (case fromstring E inner of
                       None \<Rightarrow> Inl ParseError
                     | Some doc \<Rightarrow> Inr doc))))"

section \<open>The paginated fetch\<close>

text \<open>
  One round of the loop up to the unwrapped page: build the request, post it, unwrap
  the response. The request that was posted, if any, is returned as well.
\<close>

type_synonym request = "string \<times> string"

type_synonym table = "record_dict list"

definition fetch_page ::
  "env \<Rightarrow> http_headers \<Rightarrow> string option \<Rightarrow> string \<Rightarrow> string \<Rightarrow> nat \<Rightarrow> request list \<times> (error + xml)" where
  "fetch_page E headers archer_token archer_incident_report_guid url archer_page_number =
     (case archer_incident_report_xml E archer_token archer_incident_report_guid archer_page_number of
        Inl e \<Rightarrow> ([], Inl e)
      | Inr incident_report_xml \<Rightarrow>
          (case post E url incident_report_xml headers of
             Inl e \<Rightarrow> ([(url, incident_report_xml)], Inl e)
           | Inr response \<Rightarrow>
               ([(url, incident_report_xml)],
                response_to_xml E response ''SearchRecordsByReportResult'')))"

text \<open>
  The \<open>while True\<close> loop. It has no bound, so it is a partial function: \<open>None\<close> is a run
  that never returns. A run that returns gives the requests it posted, in order, and
  either the error that was raised or the final table. \<open>pd.concat([df, final_df])\<close>
  puts the rows of the new page in front of the rows gathered so far.
\<close>

partial_function (option) fetch_loop ::
  "env \<Rightarrow> http_headers \<Rightarrow> string option \<Rightarrow> string \<Rightarrow> string \<Rightarrow> nat \<Rightarrow> table \<Rightarrow> request list
     \<Rightarrow> (request list \<times> (error + table)) option" where
  "fetch_loop E headers archer_token archer_incident_report_guid url archer_page_number final_df sent =
     (case fetch_page E headers archer_token archer_incident_report_guid url archer_page_number of
        (reqs, Inl e) \<Rightarrow> Some (sent @ reqs, Inl e)
      | (reqs, Inr xml_response) \<Rightarrow>
          if findall_desc ''Record'' xml_response = [] then Some (sent @ reqs, Inr final_df)
          else
            (let report_headers = get_report_headers xml_response;
                 df = get_report_records xml_response report_headers
             in fetch_loop E headers archer_token archer_incident_report_guid url
                  (archer_page_number + 1) (df @ final_df) (sent @ reqs)))"

declare fetch_loop.simps [code]

definition fetch_all_report_pages ::
  "env \<Rightarrow> string option \<Rightarrow> string \<Rightarrow> string \<Rightarrow> (request list \<times> (error + table)) option" where
  "fetch_all_report_pages E archer_token archer_incident_report_guid url =
     (case load_headers E ''templates/headers/search_records_by_report.json'' of
        Inl e \<Rightarrow> Some ([], Inl e)
      | Inr headers \<Rightarrow>
          fetch_loop E headers archer_token archer_incident_report_guid url 1 [] [])"

section \<open>Authentication\<close>

text \<open>
  \<open>archer_auth_token\<close>: three secrets (a missing secret raises), the session request
  and the answer. Status 200 gives the text of the result element, which may be
  \<open>None\<close>; any other status gives the string \<open>Error: <status>\<close> as the return value.
\<close>

definition secret :: "env \<Rightarrow> string \<Rightarrow> error + string" where
  "secret E k = (case get_secret E k of None \<Rightarrow> Inl SecretNotFound | Some v \<Rightarrow> Inr v)"

definition archer_auth_token :: "env \<Rightarrow> string \<Rightarrow> request list \<times> (error + string option)" where
  "archer_auth_token E archer_url =
     (let password_key = (if contains ''uat'' archer_url then ''archer-dev-password'' else ''archer-prod-password'');
          instance_key = (if contains ''uat'' archer_url then ''archer-dev-instance'' else ''archer-prod-instance'')
      in
      (case secret E password_key of Inl e \<Rightarrow> ([], Inl e) | Inr password \<Rightarrow>
      (case secret E instance_key of Inl e \<Rightarrow> ([], Inl e) | Inr instance_id \<Rightarrow>
      (case secret E ''archer-username'' of Inl e \<Rightarrow> ([], Inl e) | Inr username \<Rightarrow>
      (case load_template E ''templates/xml/create_user_session.xml'' of Inl e \<Rightarrow> ([], Inl e) | Inr t \<Rightarrow>
      (case format_str t [(''username'', username), (''instance_id'', instance_id), (''password'', password)] of
         Inl e \<Rightarrow> ([], Inl e) | Inr xml_data \<Rightarrow>
      (case load_headers E ''templates/headers/user_session.json'' of Inl e \<Rightarrow> ([], Inl e) | Inr headers \<Rightarrow>
      (let req = (archer_url @ ''/ws/general.asmx'', xml_data) in
       (case post E (fst req) (snd req) headers of
          Inl e \<Rightarrow> ([req], Inl e)
        | Inr response \<Rightarrow>
            if status_code response = 200 then
              (case fromstring E (resp_text response) of
                 None \<Rightarrow> ([req], Inl ParseError)
               | Some envelope \<Rightarrow>
                   (case find_desc (webservices_ns @ ''CreateUserSessionFromInstanceResult'') envelope of
                      None \<Rightarrow> ([req], Inl AttributeError)
                    | Some result \<Rightarrow> ([req], Inr (elem_text result))))
            else ([req], Inr (Some (''Error: '' @ str_nat (status_code response)))))))))))))"

section \<open>Enrichment and the run\<close>

text \<open>The columns of a table built from a list of dictionaries: every key of every row.\<close>

definition columns :: "('k \<times> 'v) list list \<Rightarrow> 'k list" where
  "columns df = remdups (concat (map (map fst) df))"

text \<open>
  \<open>df[col] = pd.to_datetime(df[col], ...)\<close>: the column as it stands is converted and
  every row gets its cell of the converted column.
\<close>

definition convert_column :: "env \<Rightarrow> string option \<Rightarrow> enriched_row list \<Rightarrow> enriched_row list" where
  "convert_column E col df =
     map (\<lambda>(i, row). AList.update col (Datetime (to_datetime E (map (\<lambda>r. map_of r col) df) i)) row)
         (enumerate 0 df)"

text \<open>The days of a difference of two dates; a null date on either side gives not-a-number.\<close>

definition days_between :: "int option \<Rightarrow> int option \<Rightarrow> int option" where
  "days_between later earlier =
     (case later of None \<Rightarrow> None
      | Some l \<Rightarrow> (case earlier of None \<Rightarrow> None | Some e \<Rightarrow> Some (l - e)))"

definition date_cell :: "enriched_row \<Rightarrow> string \<Rightarrow> int option" where
  "date_cell row col = (case map_of row (Some col) of Some (Datetime d) \<Rightarrow> d | _ \<Rightarrow> None)"

text \<open>
  The \<open>np.where\<close> of one row: where the closing date is null, today minus the creation
  date, else the closing date minus the creation date.
\<close>

definition days_open :: "int \<Rightarrow> enriched_row \<Rightarrow> int option" where
  "days_open today_d row =
     (if date_cell row ''Date/Time Closed'' = None
      then days_between (Some today_d) (date_cell row ''Date Created'')
      else days_between (date_cell row ''Date/Time Closed'') (date_cell row ''Date Created''))"

text \<open>
  The enrichment of \<open>main\<close>. A column label that is not a string makes \<open>'Date' in col\<close>
  raise \<open>TypeError\<close>; a table without one of the two date columns raises \<open>KeyError\<close>.
\<close>

definition enrich :: "env \<Rightarrow> table \<Rightarrow> error + enriched_row list" where
  "enrich E df =
     (let cols = columns df in
      if None \<in> set cols then Inl TypeError
      else
        (let date_columns = filter (\<lambda>col. contains ''Date'' (fmt col)) cols;
             df0 = map (map (\<lambda>(k, v). (k, Str v))) df;
             df1 = fold (convert_column E) date_columns df0
         in if Some ''Date/Time Closed'' \<notin> set cols \<or> Some ''Date Created'' \<notin> set cols
            then Inl KeyError
            else Inr (map (\<lambda>row. AList.update (Some ''Days Open'') (Number (days_open (today E) row)) row) df1)))"

text \<open>
  What a run did: the requests it posted, the table it wrote to storage (if it did)
  and how it ended. The three guarded phases end the run early on an exception; the
  enrichment is not guarded. The log lines and the construction of the two client
  objects have no part in the result and are left out. The report identifier that
  \<open>main\<close> reads from the vault is bound to a variable that is not used again; the
  identifier passed to the fetch is the configuration constant.
\<close>

datatype outcome =
  AuthFailed error | SecretsFailed error | FetchFailed error | Crashed error
  | UploadFailed | Uploaded

record run =
  requests :: "request list"
  stored :: "enriched_row list option"
  outcome :: outcome

definition main :: "env \<Rightarrow> run option" where
  "main E =
     (case archer_auth_token E (ARCHER_PROD_URL E) of
        (auth_reqs, Inl e) \<Rightarrow> Some \<lparr> requests = auth_reqs, stored = None, outcome = AuthFailed e \<rparr>
      | (auth_reqs, Inr archer_token) \<Rightarrow>
          (case secret E ''archer-prod-incident-report-guid'' of
             Inl e \<Rightarrow> Some \<lparr> requests = auth_reqs, stored = None, outcome = SecretsFailed e \<rparr>
           | Inr archer_incident_report_guid \<Rightarrow>
               (case secret E ''archer-search-url'' of
                  Inl e \<Rightarrow> Some \<lparr> requests = auth_reqs, stored = None, outcome = SecretsFailed e \<rparr>
                | Inr url \<Rightarrow>
                    (case fetch_all_report_pages E archer_token (INCIDENT_REPORT_TOKEN E) url of
                       None \<Rightarrow> None
                     | Some (reqs, Inl e) \<Rightarrow>
                         Some \<lparr> requests = auth_reqs @ reqs, stored = None, outcome = FetchFailed e \<rparr>
                     | Some (reqs, Inr df) \<Rightarrow>
                         (case enrich E df of
                            Inl e \<Rightarrow> Some \<lparr> requests = auth_reqs @ reqs, stored = None, outcome = Crashed e \<rparr>
                          | Inr df' \<Rightarrow>
                              if store E df'
                              then Some \<lparr> requests = auth_reqs @ reqs, stored = Some df', outcome = Uploaded \<rparr>
                              else Some \<lparr> requests = auth_reqs @ reqs, stored = None, outcome = UploadFailed \<rparr>)))))"

section \<open>Sessions\<close>

text \<open>
  The vocabulary of the statements about a fetch session. \<open>session_pages \<dots> p docs\<close>
  says that the requests for the pages \<open>p\<close>, \<open>p + 1\<close>, \<dots> are answered and unwrap to
  the documents \<open>docs\<close>, in this order; \<open>page_records\<close> is what one round of the loop
  makes of a document; \<open>sent_requests \<dots> p k\<close> are the requests posted for the \<open>k\<close>
  pages from \<open>p\<close> on.
\<close>

fun session_pages ::
  "env \<Rightarrow> http_headers \<Rightarrow> string option \<Rightarrow> string \<Rightarrow> string \<Rightarrow> nat \<Rightarrow> xml list \<Rightarrow> bool" where
  "session_pages E hs tok g url p [] = True"
| "session_pages E hs tok g url p (x # xs) =
     (snd (fetch_page E hs tok g url p) = Inr x \<and> session_pages E hs tok g url (Suc p) xs)"

definition has_records :: "xml \<Rightarrow> bool" where
  "has_records x = (findall_desc ''Record'' x \<noteq> [])"

definition page_records :: "xml \<Rightarrow> table" where
  "page_records x = get_report_records x (get_report_headers x)"

definition sent_requests ::
  "env \<Rightarrow> http_headers \<Rightarrow> string option \<Rightarrow> string \<Rightarrow> string \<Rightarrow> nat \<Rightarrow> nat \<Rightarrow> request list" where
  "sent_requests E hs tok g url p k = concat (map (\<lambda>i. fst (fetch_page E hs tok g url i)) [p..<p + k])"

text \<open>
  The table as the specification words it: every page normalised with the schema of
  the first page, the pages assembled as the loop assembles them.
\<close>

definition table_with_first_schema :: "xml list \<Rightarrow> table" where
  "table_with_first_schema docs =
     (case docs of
        [] \<Rightarrow> []
      | first_doc # _ \<Rightarrow>
          concat (rev (map (\<lambda>x. get_report_records x (get_report_headers first_doc)) docs)))"

text \<open>
  The day number of a calendar date, counted from 1970-01-01, which is what a
  normalised timestamp of the table library stands for here.
\<close>

definition days_from_civil :: "int \<Rightarrow> int \<Rightarrow> int \<Rightarrow> int" where
  "days_from_civil y m d =
     (let y' = (if m \<le> 2 then y - 1 else y);
          era = y' div 400;
          yoe = y' - era * 400;
          doy = (153 * (if m > 2 then m - 3 else m + 9) + 2) div 5 + d - 1;
          doe = yoe * 365 + yoe div 4 - yoe div 100 + doy
      in era * 146097 + doe - 719468)"

text \<open>
  The date that the conversion of a column of the raw table gives the row at position
  \<open>i\<close>: the column holds the string of every row that has the column and a missing
  value for every other row.
\<close>

definition converted_date :: "env \<Rightarrow> table \<Rightarrow> string \<Rightarrow> nat \<Rightarrow> int option" where
  "converted_date E df col i =
     to_datetime E (map (\<lambda>row. map_option Str (map_of row (Some col))) df) i"

text \<open>
  The keys that the normaliser writes for a field: its name and, for a user, the two
  derived keys.
\<close>

definition writes_key :: "headers_dict \<Rightarrow> xml \<Rightarrow> string option \<Rightarrow> bool" where
  "writes_key report_headers field k = (k \<in> set (map fst (process_field report_headers [] field)))"

text \<open>The same world with other status codes on the responses of the web service.\<close>

definition with_status_codes :: "(string \<Rightarrow> string \<Rightarrow> nat) \<Rightarrow> env \<Rightarrow> env" where
  "with_status_codes st E =
     E\<lparr>post := (\<lambda>url body headers.
                  case post E url body headers of
                    Inl e \<Rightarrow> Inl e
                  | Inr r \<Rightarrow> Inr (r\<lparr>status_code := st url body\<rparr>))\<rparr>"

text \<open>
  The requests of the first \<open>k\<close> rounds of the loop, and of a run up to the first \<open>k\<close>
  rounds of its loop: what has been posted by then, whether or not the loop ever ends.
\<close>

fun fetch_rounds ::
  "nat \<Rightarrow> env \<Rightarrow> http_headers \<Rightarrow> string option \<Rightarrow> string \<Rightarrow> string \<Rightarrow> nat \<Rightarrow> request list" where
  "fetch_rounds 0 E hs tok g url p = []"
| "fetch_rounds (Suc k) E hs tok g url p =
     (case fetch_page E hs tok g url p of
        (reqs, Inl e) \<Rightarrow> reqs
      | (reqs, Inr xml_response) \<Rightarrow>
          if findall_desc ''Record'' xml_response = [] then reqs
          else reqs @ fetch_rounds k E hs tok g url (p + 1))"

definition main_requests :: "nat \<Rightarrow> env \<Rightarrow> request list" where
  "main_requests k E =
     (case archer_auth_token E (ARCHER_PROD_URL E) of
        (auth_reqs, Inl e) \<Rightarrow> auth_reqs
      | (auth_reqs, Inr archer_token) \<Rightarrow>
          (case secret E ''archer-prod-incident-report-guid'' of
             Inl e \<Rightarrow> auth_reqs
           | Inr archer_incident_report_guid \<Rightarrow>
               (case secret E ''archer-search-url'' of
                  Inl e \<Rightarrow> auth_reqs
                | Inr url \<Rightarrow>
                    (case load_headers E ''templates/headers/search_records_by_report.json'' of
                       Inl e \<Rightarrow> auth_reqs
                     | Inr headers \<Rightarrow>
                         auth_reqs @ fetch_rounds k E headers archer_token (INCIDENT_REPORT_TOKEN E) url 1))))"

section \<open>A small world for concrete runs\<close>

text \<open>
  A world with fixed templates, headers and secrets, a web service given by a table
  from requests to responses (a request that is not in the table fails in transport),
  a parser given by a table from texts to documents, and a date conversion that knows
  two day-first dates and reads each cell on its own.
\<close>

definition page_template :: template where
  "page_template =
     [Lit ''token='', Hole ''archer_token'', Lit '';report='', Hole ''archer_incident_report_guid'',
      Lit '';page='', Hole ''archer_page_number'']"

definition session_template :: template where
  "session_template =
     [Lit ''user='', Hole ''username'', Lit '';instance='', Hole ''instance_id'',
      Lit '';password='', Hole ''password'']"

definition small_world :: "((string \<times> string) \<times> response) list \<Rightarrow> (string \<times> xml) list \<Rightarrow> env" where
  "small_world server documents =
     \<lparr> xml_templates = map_of
         [(''templates/xml/archer_incident_report.xml'', page_template),
          (''templates/xml/create_user_session.xml'', session_template)],
       header_files = map_of
         [(''templates/headers/search_records_by_report.json'', [(''Content-Type'', ''text/xml'')]),
          (''templates/headers/user_session.json'', [(''Content-Type'', ''text/xml'')])],
       get_secret = map_of
         [(''archer-prod-password'', ''pw''), (''archer-prod-instance'', ''inst''),
          (''archer-username'', ''svc''), (''archer-prod-incident-report-guid'', ''VAULT-GUID''),
          (''archer-search-url'', ''https://archer/search'')],
       ARCHER_PROD_URL = ''https://archer'',
       INCIDENT_REPORT_TOKEN = ''CONFIG-GUID'',
       post = (\<lambda>url body headers.
                 case map_of server (url, body) of None \<Rightarrow> Inl RequestException | Some r \<Rightarrow> Inr r),
       fromstring = map_of documents,
       to_datetime = (\<lambda>column i.
                        case drop i column of
                          Some (Str s) # _ \<Rightarrow>
                            map_of [(''01/01/2024'', days_from_civil 2024 1 1),
                                    (''05/01/2024'', days_from_civil 2024 1 5)] s
                        | _ \<Rightarrow> None),
       today = days_from_civil 2024 1 10,
       store = (\<lambda>df. True) \<rparr>"

text \<open>The envelope around a result element with the given name and text.\<close>

definition envelope :: "string \<Rightarrow> string \<Rightarrow> xml" where
  "envelope result_name inner =
     Element ''Envelope'' [] None
       [Element ''Body'' [] None
          [Element (webservices_ns @ result_name) [] (Some inner) []]]"

text \<open>A report page: field definitions \<open>(id, name)\<close> and records of fields \<open>(id, text)\<close>.\<close>

definition report_page :: "(string \<times> string) list \<Rightarrow> (string \<times> string) list list \<Rightarrow> xml" where
  "report_page defs recs =
     Element ''Records'' [] None
       (Element ''Metadata'' [] None
          [Element ''FieldDefinitions'' [] None
             (map (\<lambda>(i, n). Element ''FieldDefinition'' [(''id'', i), (''name'', n)] None []) defs)]
        # map (\<lambda>fields. Element ''Record'' [] None
                 (map (\<lambda>(i, v). Element ''Field'' [(''id'', i)] (Some v) []) fields)) recs)"

definition page_request :: "string \<Rightarrow> string \<Rightarrow> string \<Rightarrow> string \<times> string" where
  "page_request tok guid page =
     (''https://archer/search'', ''token='' @ tok @ '';report='' @ guid @ '';page='' @ page)"

definition session_request :: "string \<times> string" where
  "session_request = (''https://archer/ws/general.asmx'', ''user=svc;instance=inst;password=pw'')"

text \<open>
  A field with a list value, a reference and a user below it; its text, the label of
  the list value and the text of the reference vary.
\<close>

definition sample_field :: "string option \<Rightarrow> (string \<times> string) list \<Rightarrow> string option \<Rightarrow> xml" where
  "sample_field txt list_attrs ref_text =
     Element ''Field'' [(''id'', ''7'')] txt
       [Element ''ListValues'' [] None [Element ''ListValue'' list_attrs None []],
        Element ''Reference'' [] ref_text [],
        Element ''Users'' [] None
          [Element ''User'' [(''firstName'', ''Ada''), (''lastName'', ''Byron'')]
             (Some ''ada@example.org'') []]]"

text \<open>
  A world that serves the given pages in order, each with a status code, after a
  session request that is answered with the token \<open>TOKEN-1\<close>.
\<close>

definition served :: "(nat \<times> xml) list \<Rightarrow> env" where
  "served pages =
     small_world
       ((session_request, \<lparr> status_code = 200, resp_text = ''session'' \<rparr>) #
        map (\<lambda>(i, st, doc).
               (page_request ''TOKEN-1'' ''CONFIG-GUID'' (str_nat i),
                \<lparr> status_code = st, resp_text = ''response '' @ str_nat i \<rparr>))
            (enumerate 1 pages))
       ((''session'', envelope ''CreateUserSessionFromInstanceResult'' ''TOKEN-1'') #
        concat (map (\<lambda>(i, st, doc).
                       [(''response '' @ str_nat i,
                         envelope ''SearchRecordsByReportResult'' (''page '' @ str_nat i)),
                        (''page '' @ str_nat i, doc)])
                    (enumerate 1 pages)))"

text \<open>A page with one field per record, and a page of two incidents with their dates.\<close>

definition status_page :: "string \<Rightarrow> string list \<Rightarrow> xml" where
  "status_page name vs = report_page [(''1'', name)] (map (\<lambda>v. [(''1'', v)]) vs)"

definition incident_page :: xml where
  "incident_page =
     report_page [(''1'', ''Date Created''), (''2'', ''Date/Time Closed'')]
       [[(''1'', ''01/01/2024''), (''2'', ''05/01/2024'')],
        [(''1'', ''01/01/2024''), (''2'', [])]]"

definition three_two_zero :: env where
  "three_two_zero =
     served [(200, status_page ''Status'' [''a'', ''b'', ''c'']),
             (200, status_page ''Status'' [''d'', ''e'']),
             (200, status_page ''Status'' [])]"

definition renamed_schema :: env where
  "renamed_schema =
     served [(200, status_page ''Status'' [''new'']),
             (200, status_page ''State'' [''open'']),
             (200, status_page ''State'' [])]"

definition incident_world :: env where
  "incident_world = served [(200, incident_page), (200, report_page [] [])]"

definition error_status_world :: env where
  "error_status_world = served [(500, incident_page), (200, report_page [] [])]"

text \<open>A world whose second page is answered with status 503 and a body that is no XML.\<close>

definition unavailable_world :: env where
  "unavailable_world =
     small_world
       [(session_request, \<lparr> status_code = 200, resp_text = ''session'' \<rparr>),
        (page_request ''TOKEN-1'' ''CONFIG-GUID'' ''1'', \<lparr> status_code = 200, resp_text = ''response 1'' \<rparr>),
        (page_request ''TOKEN-1'' ''CONFIG-GUID'' ''2'',
         \<lparr> status_code = 503, resp_text = ''Service Unavailable'' \<rparr>)]
       [(''session'', envelope ''CreateUserSessionFromInstanceResult'' ''TOKEN-1''),
        (''response 1'', envelope ''SearchRecordsByReportResult'' ''page 1''),
        (''page 1'', incident_page)]"

text \<open>
  A world whose session request is answered with status 500; the page request that
  carries the resulting string is answered with status 401 and a body that is no XML.
\<close>

definition refused_world :: env where
  "refused_world =
     small_world
       [(session_request, \<lparr> status_code = 500, resp_text = ''Internal Server Error'' \<rparr>),
        (page_request ''Error: 500'' ''CONFIG-GUID'' ''1'',
         \<lparr> status_code = 401, resp_text = ''Unauthorized'' \<rparr>)]
       []"

text \<open>The world of the two incidents without the report identifier in the vault.\<close>

definition no_identifier_world :: env where
  "no_identifier_world =
     incident_world\<lparr>get_secret := (get_secret incident_world)(''archer-prod-incident-report-guid'' := None)\<rparr>"

text \<open>A document with one record that holds the given fields.\<close>

definition one_record :: "xml list \<Rightarrow> xml" where
  "one_record fs = Element ''Records'' [] None [Element ''Record'' [] None fs]"

text \<open>The no-break space U+00A0 as it stands in a text.\<close>

definition nbsp :: string where
  "nbsp = [CHR 0xC2, CHR 0xA0]"

lemmas xml_defs =
  findall_desc_def findall_desc_child_def first_of_def find_desc_def find_desc_child_def
  get_attr_def get_attr_default_def

lemmas normalizer_defs =
  stripped_text_def strip_def whitespace_code_points_def utf8_def fmt_def truthy_def extract_list_value_def
  extract_reference_def extract_users_def field_name_of_def process_field_def
  record_of_def get_report_records_def get_report_headers_def

lemmas world_defs =
  served_def status_page_def incident_page_def small_world_def page_template_def session_template_def envelope_def report_page_def
  page_request_def session_request_def webservices_ns_def load_template_def load_headers_def
  archer_incident_report_xml_def response_to_xml_def fetch_page_def secret_def

section \<open>The loop, round by round\<close>

lemma fetch_loop_error:
  "fetch_page E hs tok g url p = (reqs, Inl e) \<Longrightarrow>
   fetch_loop E hs tok g url p df sent = Some (sent @ reqs, Inl e)"
  by (subst fetch_loop.simps) simp

lemma fetch_loop_stop:
  "fetch_page E hs tok g url p = (reqs, Inr x) \<Longrightarrow> \<not> has_records x \<Longrightarrow>
   fetch_loop E hs tok g url p df sent = Some (sent @ reqs, Inr df)"
  by (subst fetch_loop.simps) (simp add: has_records_def)

lemma fetch_loop_step:
  "fetch_page E hs tok g url p = (reqs, Inr x) \<Longrightarrow> has_records x \<Longrightarrow>
   fetch_loop E hs tok g url p df sent =
   fetch_loop E hs tok g url (Suc p) (page_records x @ df) (sent @ reqs)"
  by (subst fetch_loop.simps) (simp add: Let_def has_records_def page_records_def)

lemma sent_requests_0: "sent_requests E hs tok g url p 0 = []"
  by (simp add: sent_requests_def)

lemma sent_requests_Suc:
  "sent_requests E hs tok g url p (Suc k) =
   fst (fetch_page E hs tok g url p) @ sent_requests E hs tok g url (Suc p) k"
  by (simp add: sent_requests_def upt_rec)

lemma sent_requests_snoc:
  "sent_requests E hs tok g url p (Suc k) =
   sent_requests E hs tok g url p k @ fst (fetch_page E hs tok g url (p + k))"
  by (simp add: sent_requests_def)

lemma session_pages_append:
  "session_pages E hs tok g url p (xs @ ys) =
   (session_pages E hs tok g url p xs \<and> session_pages E hs tok g url (p + length xs) ys)"
  by (induction xs arbitrary: p) auto

lemma fetch_page_request:
  assumes "snd (fetch_page E hs tok g url p) = Inr x"
  shows "\<exists>body. archer_incident_report_xml E tok g p = Inr body
           \<and> fst (fetch_page E hs tok g url p) = [(url, body)]"
  using assms by (auto simp: fetch_page_def split: sum.splits)

lemma length_sent_requests:
  "session_pages E hs tok g url p docs \<Longrightarrow>
   length (sent_requests E hs tok g url p (length docs)) = length docs"
proof (induction docs arbitrary: p)
  case Nil
  then show ?case by (simp add: sent_requests_0)
next
  case (Cons x xs)
  from Cons.prems have "snd (fetch_page E hs tok g url p) = Inr x" by simp
  from fetch_page_request [OF this] have "length (fst (fetch_page E hs tok g url p)) = 1" by auto
  moreover from Cons.prems have "session_pages E hs tok g url (Suc p) xs" by simp
  ultimately show ?case using Cons.IH by (simp add: sent_requests_Suc)
qed

lemma fetch_loop_pages:
  "session_pages E hs tok g url p docs \<Longrightarrow> list_all has_records docs \<Longrightarrow>
   fetch_loop E hs tok g url p df sent =
   fetch_loop E hs tok g url (p + length docs) (concat (rev (map page_records docs)) @ df)
     (sent @ sent_requests E hs tok g url p (length docs))"
proof (induction docs arbitrary: p df sent)
  case Nil
  then show ?case by (simp add: sent_requests_0)
next
  case (Cons x xs)
  obtain reqs where fp: "fetch_page E hs tok g url p = (reqs, Inr x)"
    using Cons.prems(1) by (cases "fetch_page E hs tok g url p") simp
  have ne: "has_records x" using Cons.prems(2) by simp
  have rest: "session_pages E hs tok g url (Suc p) xs" "list_all has_records xs"
    using Cons.prems by simp_all
  show ?case
    by (simp add: fetch_loop_step [OF fp ne] Cons.IH [OF rest] sent_requests_Suc fp)
qed

lemma fetch_loop_session:
  assumes "session_pages E hs tok g url p (docs @ [z])"
    and "list_all has_records docs" and "\<not> has_records z"
  shows "fetch_loop E hs tok g url p df sent =
         Some (sent @ sent_requests E hs tok g url p (Suc (length docs)),
               Inr (concat (rev (map page_records docs)) @ df))"
proof -
  from assms(1) have pre: "session_pages E hs tok g url p docs"
    and last: "snd (fetch_page E hs tok g url (p + length docs)) = Inr z"
    by (simp_all add: session_pages_append)
  obtain reqs where fp: "fetch_page E hs tok g url (p + length docs) = (reqs, Inr z)"
    using last by (cases "fetch_page E hs tok g url (p + length docs)") simp
  show ?thesis
    by (simp add: fetch_loop_pages [OF pre assms(2)] fetch_loop_stop [OF fp assms(3)]
          sent_requests_snoc fp)
qed

lemma fetch_loop_abort:
  assumes "session_pages E hs tok g url p docs" and "list_all has_records docs"
    and "snd (fetch_page E hs tok g url (p + length docs)) = Inl e"
  shows "fetch_loop E hs tok g url p df sent =
         Some (sent @ sent_requests E hs tok g url p (Suc (length docs)), Inl e)"
proof -
  obtain reqs where fp: "fetch_page E hs tok g url (p + length docs) = (reqs, Inl e)"
    using assms(3) by (cases "fetch_page E hs tok g url (p + length docs)") simp
  show ?thesis
    by (simp add: fetch_loop_pages [OF assms(1,2)] fetch_loop_error [OF fp]
          sent_requests_snoc fp)
qed

lemma fetch_all_session:
  assumes "header_files E ''templates/headers/search_records_by_report.json'' = Some hs"
    and "session_pages E hs tok g url 1 (docs @ [z])"
    and "list_all has_records docs" and "\<not> has_records z"
  shows "fetch_all_report_pages E tok g url =
         Some (sent_requests E hs tok g url 1 (Suc (length docs)),
               Inr (concat (rev (map page_records docs))))"
  using fetch_loop_session [OF assms(2,3,4), of "[]" "[]"] assms(1)
  by (simp add: fetch_all_report_pages_def load_headers_def)

lemma length_page_records: "length (page_records x) = length (findall_desc ''Record'' x)"
  by (simp add: page_records_def get_report_records_def)

section \<open>Pagination and assembly\<close>

text \<open>
  C4. When the pages of a session up to some page all hold records and the next page
  holds none, the fetch returns after the request for that page: it has posted one
  request per page up to and including the empty one, and the table has as many rows
  as the pages before it hold records. With 3, 2 and 0 records there are two pages of
  data and 5 rows.
\<close>

theorem pagination_stops_at_first_empty_page:
  assumes "header_files E ''templates/headers/search_records_by_report.json'' = Some hs"
    and "session_pages E hs tok g url 1 (docs @ [z])"
    and "list_all has_records docs" and "\<not> has_records z"
  shows "\<exists>reqs tbl.
           fetch_all_report_pages E tok g url = Some (reqs, Inr tbl)
           \<and> reqs = sent_requests E hs tok g url 1 (length docs + 1)
           \<and> length reqs = length docs + 1
           \<and> length tbl = sum_list (map (\<lambda>x. length (findall_desc ''Record'' x)) docs)
           \<and> (map (\<lambda>x. length (findall_desc ''Record'' x)) (docs @ [z]) = [3, 2, 0]
                \<longrightarrow> length docs = 2 \<and> length tbl = 5)"
proof -
  let ?tbl = "concat (rev (map page_records docs))"
  have len: "length ?tbl = sum_list (map (\<lambda>x. length (findall_desc ''Record'' x)) docs)"
    by (simp add: length_concat rev_map [symmetric] sum_list_rev length_page_records comp_def)
  have reqs: "length (sent_requests E hs tok g url 1 (length (docs @ [z]))) = length (docs @ [z])"
    by (rule length_sent_requests [OF assms(2)])
  have inst: "map (\<lambda>x. length (findall_desc ''Record'' x)) (docs @ [z]) = [3, 2, 0]
                \<longrightarrow> length docs = 2 \<and> length ?tbl = 5"
  proof
    assume a: "map (\<lambda>x. length (findall_desc ''Record'' x)) (docs @ [z]) = [3, 2, 0]"
    then have "map (\<lambda>x. length (findall_desc ''Record'' x)) docs @ [length (findall_desc ''Record'' z)] = [3, 2] @ [0]"
      by simp
    then have m: "map (\<lambda>x. length (findall_desc ''Record'' x)) docs = [3, 2]"
      by (simp only: append1_eq_conv)
    from arg_cong [OF m, of length] have l2: "length docs = 2" by simp
    have "length ?tbl = 5" unfolding len m by simp
    with l2 show "length docs = 2 \<and> length ?tbl = 5" by (rule conjI)
  qed
  show ?thesis
    using fetch_all_session [OF assms] len reqs inst by simp
qed

theorem pagination_stops_at_first_empty_page_witness:
  "header_files three_two_zero ''templates/headers/search_records_by_report.json''
     = Some [(''Content-Type'', ''text/xml'')]
   \<and> session_pages three_two_zero [(''Content-Type'', ''text/xml'')] (Some ''TOKEN-1'') ''CONFIG-GUID''
        ''https://archer/search'' 1
        ([status_page ''Status'' [''a'', ''b'', ''c''], status_page ''Status'' [''d'', ''e'']]
           @ [status_page ''Status'' []])
   \<and> list_all has_records [status_page ''Status'' [''a'', ''b'', ''c''], status_page ''Status'' [''d'', ''e'']]
   \<and> \<not> has_records (status_page ''Status'' [])
   \<and> map (\<lambda>x. length (findall_desc ''Record'' x))
        ([status_page ''Status'' [''a'', ''b'', ''c''], status_page ''Status'' [''d'', ''e'']]
           @ [status_page ''Status'' []]) = [3, 2, 0]
   \<and> (\<exists>reqs tbl.
         fetch_all_report_pages three_two_zero (Some ''TOKEN-1'') ''CONFIG-GUID'' ''https://archer/search''
           = Some (reqs, Inr tbl)
         \<and> length reqs = 3 \<and> length tbl = 5)"
proof -
  let ?hs = "[(''Content-Type'', ''text/xml'')]"
  let ?docs = "[status_page ''Status'' [''a'', ''b'', ''c''], status_page ''Status'' [''d'', ''e'']]"
  let ?z = "status_page ''Status'' []"
  have h: "header_files three_two_zero ''templates/headers/search_records_by_report.json'' = Some ?hs"
    by (simp add: three_two_zero_def served_def small_world_def)
  have s: "session_pages three_two_zero ?hs (Some ''TOKEN-1'') ''CONFIG-GUID'' ''https://archer/search'' 1
             (?docs @ [?z])"
    by (simp add: three_two_zero_def world_defs xml_defs fmt_def str_nat.simps)
  have d: "list_all has_records ?docs"
    by (simp add: has_records_def status_page_def report_page_def xml_defs)
  have z: "\<not> has_records ?z"
    by (simp add: has_records_def status_page_def report_page_def xml_defs)
  have c: "map (\<lambda>x. length (findall_desc ''Record'' x)) (?docs @ [?z]) = [3, 2, 0]"
    by (simp add: status_page_def report_page_def xml_defs)
  from pagination_stops_at_first_empty_page [OF h s d z] c
  have "\<exists>reqs tbl.
         fetch_all_report_pages three_two_zero (Some ''TOKEN-1'') ''CONFIG-GUID'' ''https://archer/search''
           = Some (reqs, Inr tbl)
         \<and> length reqs = 3 \<and> length tbl = 5"
    by auto
  with h s d z c show ?thesis by blast
qed

text \<open>The normaliser reads the schema only through lookups.\<close>

lemma field_name_of_cong:
  "map_of h1 = map_of h2 \<Longrightarrow> field_name_of h1 = field_name_of h2"
  by (rule ext) (simp add: field_name_of_def)

lemma process_field_cong:
  "map_of h1 = map_of h2 \<Longrightarrow> process_field h1 = process_field h2"
  by (intro ext) (simp add: process_field_def field_name_of_cong [of h1 h2])

lemma get_report_records_cong:
  "map_of h1 = map_of h2 \<Longrightarrow> get_report_records x h1 = get_report_records x h2"
  by (simp add: get_report_records_def record_of_def process_field_cong [of h1 h2])

text \<open>
  C6. Each new page is put in front of the table gathered so far: the final table is
  the pages in reverse fetch order, the records of each page in document order. So
  all records of page \<open>k + 1\<close> come before all records of page \<open>k\<close>.
\<close>

theorem later_pages_come_first:
  assumes "header_files E ''templates/headers/search_records_by_report.json'' = Some hs"
    and "session_pages E hs tok g url 1 (docs @ [z])"
    and "list_all has_records docs" and "\<not> has_records z"
  shows "\<exists>reqs. fetch_all_report_pages E tok g url =
           Some (reqs,
                 Inr (concat (rev (map (\<lambda>x. map (record_of (get_report_headers x))
                                              (findall_desc ''Record'' x)) docs))))"
proof -
  have "page_records = (\<lambda>x. map (record_of (get_report_headers x)) (findall_desc ''Record'' x))"
    by (rule ext) (simp add: page_records_def get_report_records_def)
  with fetch_all_session [OF assms] show ?thesis by simp
qed

theorem later_pages_come_first_witness:
  "header_files three_two_zero ''templates/headers/search_records_by_report.json''
     = Some [(''Content-Type'', ''text/xml'')]
   \<and> session_pages three_two_zero [(''Content-Type'', ''text/xml'')] (Some ''TOKEN-1'') ''CONFIG-GUID''
        ''https://archer/search'' 1
        ([status_page ''Status'' [''a'', ''b'', ''c''], status_page ''Status'' [''d'', ''e'']]
           @ [status_page ''Status'' []])
   \<and> list_all has_records [status_page ''Status'' [''a'', ''b'', ''c''], status_page ''Status'' [''d'', ''e'']]
   \<and> \<not> has_records (status_page ''Status'' [])
   \<and> (\<exists>reqs.
         fetch_all_report_pages three_two_zero (Some ''TOKEN-1'') ''CONFIG-GUID'' ''https://archer/search''
           = Some (reqs, Inr [[(Some ''Status'', ''d'')], [(Some ''Status'', ''e'')],
                              [(Some ''Status'', ''a'')], [(Some ''Status'', ''b'')],
                              [(Some ''Status'', ''c'')]]))"
proof -
  let ?hs = "[(''Content-Type'', ''text/xml'')]"
  let ?docs = "[status_page ''Status'' [''a'', ''b'', ''c''], status_page ''Status'' [''d'', ''e'']]"
  let ?z = "status_page ''Status'' []"
  have h: "header_files three_two_zero ''templates/headers/search_records_by_report.json'' = Some ?hs"
    by (simp add: three_two_zero_def served_def small_world_def)
  have s: "session_pages three_two_zero ?hs (Some ''TOKEN-1'') ''CONFIG-GUID'' ''https://archer/search'' 1
             (?docs @ [?z])"
    by (simp add: three_two_zero_def world_defs xml_defs fmt_def str_nat.simps)
  have d: "list_all has_records ?docs"
    by (simp add: has_records_def status_page_def report_page_def xml_defs)
  have z: "\<not> has_records ?z"
    by (simp add: has_records_def status_page_def report_page_def xml_defs)
  have r: "concat (rev (map (\<lambda>x. map (record_of (get_report_headers x)) (findall_desc ''Record'' x)) ?docs))
           = [[(Some ''Status'', ''d'')], [(Some ''Status'', ''e'')],
              [(Some ''Status'', ''a'')], [(Some ''Status'', ''b'')], [(Some ''Status'', ''c'')]]"
    by (simp add: status_page_def report_page_def xml_defs normalizer_defs)
  from later_pages_come_first [OF h s d z]
  have "\<exists>reqs.
         fetch_all_report_pages three_two_zero (Some ''TOKEN-1'') ''CONFIG-GUID'' ''https://archer/search''
           = Some (reqs, Inr [[(Some ''Status'', ''d'')], [(Some ''Status'', ''e'')],
                              [(Some ''Status'', ''a'')], [(Some ''Status'', ''b'')],
                              [(Some ''Status'', ''c'')]])"
    unfolding r .
  with h s d z show ?thesis by blast
qed


text \<open>
  C7, as stated, fails: in a session whose second page names field 1 differently from
  the first page, the second page's record carries the second page's name, while the
  table built with the first page's schema carries the first page's name.
\<close>

theorem first_schema_counterexample:
  "session_pages renamed_schema [(''Content-Type'', ''text/xml'')] (Some ''TOKEN-1'') ''CONFIG-GUID''
     ''https://archer/search'' 1
     [status_page ''Status'' [''new''], status_page ''State'' [''open''], status_page ''State'' []]
   \<and> fetch_all_report_pages renamed_schema (Some ''TOKEN-1'') ''CONFIG-GUID'' ''https://archer/search''
       = Some ([page_request ''TOKEN-1'' ''CONFIG-GUID'' ''1'', page_request ''TOKEN-1'' ''CONFIG-GUID'' ''2'',
                page_request ''TOKEN-1'' ''CONFIG-GUID'' ''3''],
               Inr [[(Some ''State'', ''open'')], [(Some ''Status'', ''new'')]])
   \<and> table_with_first_schema [status_page ''Status'' [''new''], status_page ''State'' [''open'']]
       = [[(Some ''Status'', ''open'')], [(Some ''Status'', ''new'')]]
   \<and> get_report_records (status_page ''State'' [''open''])
         (get_report_headers (status_page ''Status'' [''new'']))
       \<noteq> get_report_records (status_page ''State'' [''open''])
           (get_report_headers (status_page ''State'' [''open'']))"
proof -
  let ?hs = "[(''Content-Type'', ''text/xml'')]"
  let ?docs = "[status_page ''Status'' [''new''], status_page ''State'' [''open'']]"
  let ?z = "status_page ''State'' []"
  have h: "header_files renamed_schema ''templates/headers/search_records_by_report.json'' = Some ?hs"
    by (simp add: renamed_schema_def served_def small_world_def)
  have s: "session_pages renamed_schema ?hs (Some ''TOKEN-1'') ''CONFIG-GUID'' ''https://archer/search'' 1
             (?docs @ [?z])"
    by (simp add: renamed_schema_def world_defs xml_defs fmt_def str_nat.simps)
  have d: "list_all has_records ?docs"
    by (simp add: has_records_def status_page_def report_page_def xml_defs)
  have z: "\<not> has_records ?z"
    by (simp add: has_records_def status_page_def report_page_def xml_defs)
  have q: "sent_requests renamed_schema ?hs (Some ''TOKEN-1'') ''CONFIG-GUID'' ''https://archer/search'' 1
             (Suc (length ?docs))
           = [page_request ''TOKEN-1'' ''CONFIG-GUID'' ''1'', page_request ''TOKEN-1'' ''CONFIG-GUID'' ''2'',
              page_request ''TOKEN-1'' ''CONFIG-GUID'' ''3'']"
    by (simp add: sent_requests_def upt_rec renamed_schema_def world_defs xml_defs fmt_def str_nat.simps)
  have r: "concat (rev (map page_records ?docs)) = [[(Some ''State'', ''open'')], [(Some ''Status'', ''new'')]]"
    by (simp add: page_records_def status_page_def report_page_def xml_defs normalizer_defs)
  have t: "table_with_first_schema ?docs = [[(Some ''Status'', ''open'')], [(Some ''Status'', ''new'')]]"
    by (simp add: table_with_first_schema_def status_page_def report_page_def xml_defs normalizer_defs)
  have n: "get_report_records (status_page ''State'' [''open''])
             (get_report_headers (status_page ''Status'' [''new'']))
           \<noteq> get_report_records (status_page ''State'' [''open''])
               (get_report_headers (status_page ''State'' [''open'']))"
    by (simp add: status_page_def report_page_def xml_defs normalizer_defs)
  from fetch_all_session [OF h s d z] s t n show ?thesis
    unfolding q r by simp
qed

text \<open>
  C7, amended. The schema used to normalise a page is the schema extracted from that
  same page. The table equals the one built with the first page's schema whenever
  the schema of every later page agrees with the first page's on every lookup.
\<close>

theorem schema_is_taken_from_each_page:
  assumes "header_files E ''templates/headers/search_records_by_report.json'' = Some hs"
    and "session_pages E hs tok g url 1 ((first_doc # more_docs) @ [z])"
    and "list_all has_records (first_doc # more_docs)" and "\<not> has_records z"
  shows "\<exists>reqs tbl.
           fetch_all_report_pages E tok g url = Some (reqs, Inr tbl)
           \<and> tbl = concat (rev (map (\<lambda>x. get_report_records x (get_report_headers x))
                                      (first_doc # more_docs)))
           \<and> (list_all (\<lambda>x. map_of (get_report_headers x) = map_of (get_report_headers first_doc)) more_docs
                \<longrightarrow> tbl = table_with_first_schema (first_doc # more_docs))"
proof -
  let ?docs = "first_doc # more_docs"
  have own: "page_records = (\<lambda>x. get_report_records x (get_report_headers x))"
    by (rule ext) (simp add: page_records_def)
  have same: "map (\<lambda>x. get_report_records x (get_report_headers x)) ?docs
              = map (\<lambda>x. get_report_records x (get_report_headers first_doc)) ?docs"
    if a: "list_all (\<lambda>x. map_of (get_report_headers x) = map_of (get_report_headers first_doc)) more_docs"
  proof (rule map_cong [OF refl])
    fix x assume "x \<in> set ?docs"
    with a have "map_of (get_report_headers x) = map_of (get_report_headers first_doc)"
      by (auto simp: list_all_iff)
    then show "get_report_records x (get_report_headers x) = get_report_records x (get_report_headers first_doc)"
      by (rule get_report_records_cong)
  qed
  have "list_all (\<lambda>x. map_of (get_report_headers x) = map_of (get_report_headers first_doc)) more_docs
        \<longrightarrow> concat (rev (map (\<lambda>x. get_report_records x (get_report_headers x)) ?docs))
            = table_with_first_schema ?docs"
  proof
    assume "list_all (\<lambda>x. map_of (get_report_headers x) = map_of (get_report_headers first_doc)) more_docs"
    from same [OF this] show "concat (rev (map (\<lambda>x. get_report_records x (get_report_headers x)) ?docs))
            = table_with_first_schema ?docs"
      by (simp only: table_with_first_schema_def list.case)
  qed
  with fetch_all_session [OF assms] show ?thesis
    unfolding own by blast
qed

theorem schema_is_taken_from_each_page_witness:
  "header_files three_two_zero ''templates/headers/search_records_by_report.json''
     = Some [(''Content-Type'', ''text/xml'')]
   \<and> session_pages three_two_zero [(''Content-Type'', ''text/xml'')] (Some ''TOKEN-1'') ''CONFIG-GUID''
        ''https://archer/search'' 1
        ((status_page ''Status'' [''a'', ''b'', ''c''] # [status_page ''Status'' [''d'', ''e'']])
           @ [status_page ''Status'' []])
   \<and> list_all has_records (status_page ''Status'' [''a'', ''b'', ''c''] # [status_page ''Status'' [''d'', ''e'']])
   \<and> \<not> has_records (status_page ''Status'' [])
   \<and> list_all (\<lambda>x. map_of (get_report_headers x)
                      = map_of (get_report_headers (status_page ''Status'' [''a'', ''b'', ''c''])))
        [status_page ''Status'' [''d'', ''e'']]
   \<and> (\<exists>reqs.
         fetch_all_report_pages three_two_zero (Some ''TOKEN-1'') ''CONFIG-GUID'' ''https://archer/search''
           = Some (reqs, Inr (table_with_first_schema
                (status_page ''Status'' [''a'', ''b'', ''c''] # [status_page ''Status'' [''d'', ''e'']]))))"
proof -
  let ?hs = "[(''Content-Type'', ''text/xml'')]"
  let ?a = "status_page ''Status'' [''a'', ''b'', ''c'']"
  let ?b = "status_page ''Status'' [''d'', ''e'']"
  let ?z = "status_page ''Status'' []"
  have h: "header_files three_two_zero ''templates/headers/search_records_by_report.json'' = Some ?hs"
    by (simp add: three_two_zero_def served_def small_world_def)
  have s: "session_pages three_two_zero ?hs (Some ''TOKEN-1'') ''CONFIG-GUID'' ''https://archer/search'' 1
             ((?a # [?b]) @ [?z])"
    by (simp add: three_two_zero_def world_defs xml_defs fmt_def str_nat.simps)
  have d: "list_all has_records (?a # [?b])"
    by (simp add: has_records_def status_page_def report_page_def xml_defs)
  have z: "\<not> has_records ?z"
    by (simp add: has_records_def status_page_def report_page_def xml_defs)
  have e: "list_all (\<lambda>x. map_of (get_report_headers x) = map_of (get_report_headers ?a)) [?b]"
    by (simp add: status_page_def report_page_def xml_defs get_report_headers_def)
  from schema_is_taken_from_each_page [OF h s d z]
  obtain reqs tbl where
    f: "fetch_all_report_pages three_two_zero (Some ''TOKEN-1'') ''CONFIG-GUID'' ''https://archer/search''
          = Some (reqs, Inr tbl)"
    and i: "list_all (\<lambda>x. map_of (get_report_headers x) = map_of (get_report_headers ?a)) [?b]
              \<longrightarrow> tbl = table_with_first_schema (?a # [?b])"
    by blast
  from i e have "tbl = table_with_first_schema (?a # [?b])" by (rule mp)
  with f
  have "\<exists>reqs. fetch_all_report_pages three_two_zero (Some ''TOKEN-1'') ''CONFIG-GUID'' ''https://archer/search''
           = Some (reqs, Inr (table_with_first_schema (?a # [?b])))"
    by blast
  with h s d z e show ?thesis by blast
qed

section \<open>The normaliser: which encoding gives the value of a field\<close>

text \<open>
  A record of the output is made of the fields of its \<open>Record\<close> element one after the
  other; a field changes the entries under the keys it writes and no other entry.
\<close>

lemma get_report_records_nth:
  "j < length (findall_desc ''Record'' xml_tree) \<Longrightarrow>
   get_report_records xml_tree hs ! j = record_of hs (findall_desc ''Record'' xml_tree ! j)"
  by (simp add: get_report_records_def)

lemma record_of_split:
  "findall_desc ''Field'' r = earlier @ field # later \<Longrightarrow>
   record_of hs r =
   fold (\<lambda>f d. process_field hs d f) later
     (process_field hs (fold (\<lambda>f d. process_field hs d f) earlier []) field)"
  by (simp add: record_of_def)

lemma record_at_field:
  assumes "j < length (findall_desc ''Record'' xml_tree)"
    and "findall_desc ''Field'' (findall_desc ''Record'' xml_tree ! j) = earlier @ field # later"
  shows "get_report_records xml_tree hs ! j =
         fold (\<lambda>f d. process_field hs d f) later
           (process_field hs (fold (\<lambda>f d. process_field hs d f) earlier []) field)"
  by (simp add: get_report_records_nth [OF assms(1)] record_of_split [OF assms(2)])

lemma process_field_lookup:
  "map_of (process_field hs d g) k =
   (if writes_key hs g k then map_of (process_field hs [] g) k else map_of d k)"
  by (simp add: process_field_def writes_key_def Let_def update_conv' dom_update
           split: option.splits)

lemma fold_untouched:
  "list_all (\<lambda>g. \<not> writes_key hs g k) later \<Longrightarrow>
   map_of (fold (\<lambda>f d. process_field hs d f) later d) k = map_of d k"
  by (induction later arbitrary: d) (simp_all add: process_field_lookup)


text \<open>
  C9, as stated, fails on the output record: when two fields of a record resolve to
  the same name, the record holds the text of the later one, so the value of the
  earlier field is not its own trimmed text.
\<close>

theorem plain_text_overwritten_counterexample:
  "findall_desc ''Field''
     (findall_desc ''Record''
        (one_record [Element ''Field'' [(''id'', ''7'')] (Some ''first'') [],
                     Element ''Field'' [(''id'', ''7'')] (Some ''second'') []]) ! 0)
     = [Element ''Field'' [(''id'', ''7'')] (Some ''first'') [],
        Element ''Field'' [(''id'', ''7'')] (Some ''second'') []]
   \<and> stripped_text (Element ''Field'' [(''id'', ''7'')] (Some ''first'') []) = ''first''
   \<and> field_name_of [] (Element ''Field'' [(''id'', ''7'')] (Some ''first'') []) = Some ''Field_7''
   \<and> get_report_records
        (one_record [Element ''Field'' [(''id'', ''7'')] (Some ''first'') [],
                     Element ''Field'' [(''id'', ''7'')] (Some ''second'') []]) []
       = [[(Some ''Field_7'', ''second'')]]
   \<and> map_of (get_report_records
                (one_record [Element ''Field'' [(''id'', ''7'')] (Some ''first'') [],
                             Element ''Field'' [(''id'', ''7'')] (Some ''second'') []]) [] ! 0)
         (Some ''Field_7'') \<noteq> Some ''first''"
  by (simp add: one_record_def xml_defs normalizer_defs)

text \<open>
  C9, amended. For a field whose direct text, trimmed, is not empty, the normaliser
  writes that trimmed text under the field's name, whatever list values, references
  or users are below the field: the output record is the earlier fields, then this
  entry, then the later fields. The entry is the field's value in the output record
  unless a later field of the same record writes the same key.
\<close>

theorem plain_text_wins:
  assumes "j < length (findall_desc ''Record'' xml_tree)"
    and "findall_desc ''Field'' (findall_desc ''Record'' xml_tree ! j) = earlier @ field # later"
    and "stripped_text field \<noteq> []"
  shows "get_report_records xml_tree report_headers ! j =
           fold (\<lambda>f d. process_field report_headers d f) later
             (AList.update (field_name_of report_headers field) (stripped_text field)
                (fold (\<lambda>f d. process_field report_headers d f) earlier []))
         \<and> (list_all (\<lambda>g. \<not> writes_key report_headers g (field_name_of report_headers field)) later
              \<longrightarrow> map_of (get_report_records xml_tree report_headers ! j)
                    (field_name_of report_headers field) = Some (stripped_text field))"
proof -
  let ?step = "\<lambda>f d. process_field report_headers d f"
  have own: "process_field report_headers (fold ?step earlier []) field =
             AList.update (field_name_of report_headers field) (stripped_text field) (fold ?step earlier [])"
    using assms(3) by (simp add: process_field_def Let_def)
  have out: "get_report_records xml_tree report_headers ! j =
             fold ?step later
               (AList.update (field_name_of report_headers field) (stripped_text field) (fold ?step earlier []))"
    using record_at_field [OF assms(1,2), of report_headers] by (simp only: own)
  have "map_of (get_report_records xml_tree report_headers ! j) (field_name_of report_headers field)
          = Some (stripped_text field)"
    if "list_all (\<lambda>g. \<not> writes_key report_headers g (field_name_of report_headers field)) later"
    using fold_untouched [OF that] by (simp add: out update_conv')
  with out show ?thesis by blast
qed

theorem plain_text_wins_witness:
  "(0 :: nat) < length (findall_desc ''Record''
      (one_record [Element ''Field'' [(''id'', ''1'')] (Some ''x'') [],
                   sample_field (Some (nbsp @ '' open '')) [(''displayName'', ''High'')] (Some ''INC-1''),
                   Element ''Field'' [(''id'', ''9'')] (Some ''y'') []]))
   \<and> findall_desc ''Field'' (findall_desc ''Record''
      (one_record [Element ''Field'' [(''id'', ''1'')] (Some ''x'') [],
                   sample_field (Some (nbsp @ '' open '')) [(''displayName'', ''High'')] (Some ''INC-1''),
                   Element ''Field'' [(''id'', ''9'')] (Some ''y'') []]) ! 0)
       = [Element ''Field'' [(''id'', ''1'')] (Some ''x'') []]
         @ sample_field (Some (nbsp @ '' open '')) [(''displayName'', ''High'')] (Some ''INC-1'')
         # [Element ''Field'' [(''id'', ''9'')] (Some ''y'') []]
   \<and> stripped_text (sample_field (Some (nbsp @ '' open '')) [(''displayName'', ''High'')] (Some ''INC-1''))
       = ''open''
   \<and> extract_list_value (sample_field (Some (nbsp @ '' open '')) [(''displayName'', ''High'')] (Some ''INC-1''))
       = Some ''High''
   \<and> list_all (\<lambda>g. \<not> writes_key [] g (Some ''Field_7'')) [Element ''Field'' [(''id'', ''9'')] (Some ''y'') []]
   \<and> map_of (get_report_records
        (one_record [Element ''Field'' [(''id'', ''1'')] (Some ''x'') [],
                     sample_field (Some (nbsp @ '' open '')) [(''displayName'', ''High'')] (Some ''INC-1''),
                     Element ''Field'' [(''id'', ''9'')] (Some ''y'') []]) [] ! 0) (Some ''Field_7'')
       = Some ''open''"
proof -
  let ?a = "Element ''Field'' [(''id'', ''1'')] (Some ''x'') []"
  let ?f = "sample_field (Some (nbsp @ '' open '')) [(''displayName'', ''High'')] (Some ''INC-1'')"
  let ?b = "Element ''Field'' [(''id'', ''9'')] (Some ''y'') []"
  let ?doc = "one_record [?a, ?f, ?b]"
  have j: "(0 :: nat) < length (findall_desc ''Record'' ?doc)"
    by (simp add: one_record_def xml_defs)
  have fs: "findall_desc ''Field'' (findall_desc ''Record'' ?doc ! 0) = [?a] @ ?f # [?b]"
    by (simp add: one_record_def sample_field_def xml_defs)
  have t: "stripped_text ?f = ''open''"
    by (simp add: sample_field_def nbsp_def stripped_text_def strip_def whitespace_code_points_def utf8_def)
  have n: "field_name_of [] ?f = Some ''Field_7''"
    by (simp add: sample_field_def field_name_of_def get_attr_def fmt_def)
  have l: "extract_list_value ?f = Some ''High''"
    by (simp add: sample_field_def extract_list_value_def xml_defs)
  have w: "list_all (\<lambda>g. \<not> writes_key [] g (Some ''Field_7'')) [?b]"
    by (simp add: writes_key_def xml_defs normalizer_defs)
  have h: "stripped_text ?f \<noteq> []" by (simp add: t)
  note imp = plain_text_wins [OF j fs h, of "[]", THEN conjunct2, unfolded n t]
  from imp w
  have "map_of (get_report_records ?doc [] ! 0) (Some ''Field_7'') = Some ''open''"
    by (rule mp)
  with j fs t l w show ?thesis by (intro conjI)
qed

text \<open>
  C10. For a field with empty trimmed text whose first \<open>ListValues/ListValue\<close>
  descendant has no \<open>displayName\<close> or an empty one, the normaliser goes on as if no
  list value had been found: the output record is the earlier fields, then the
  reference if its trimmed text is not empty, else the user, else the empty string,
  then the later fields. The label is written as the value only when it is a
  non-empty string.
\<close>

theorem list_value_needs_display_name:
  assumes "j < length (findall_desc ''Record'' xml_tree)"
    and "findall_desc ''Field'' (findall_desc ''Record'' xml_tree ! j) = earlier @ field # later"
    and "stripped_text field = []"
    and "find_desc_child ''ListValues'' ''ListValue'' field = Some list_value_element"
  shows "get_report_records xml_tree report_headers ! j =
     fold (\<lambda>f d. process_field report_headers d f) later
       (case get_attr list_value_element ''displayName'' of
          Some (c # cs) \<Rightarrow>
            AList.update (field_name_of report_headers field) (c # cs)
              (fold (\<lambda>f d. process_field report_headers d f) earlier [])
        | _ \<Rightarrow>
           (let reference_text =
                  (case find_desc ''Reference'' field of
                     None \<Rightarrow> []
                   | Some reference_element \<Rightarrow> stripped_text reference_element)
            in if reference_text \<noteq> []
               then AList.update (field_name_of report_headers field) reference_text
                      (fold (\<lambda>f d. process_field report_headers d f) earlier [])
               else (case find_desc_child ''Users'' ''User'' field of
                       Some user_element \<Rightarrow>
                         AList.update (field_name_of report_headers field) (stripped_text user_element)
                           (AList.update (Some (fmt (field_name_of report_headers field) @ ''_LastName''))
                              (get_attr_default user_element ''lastName'' [])
                             (AList.update (Some (fmt (field_name_of report_headers field) @ ''_FirstName''))
                                (get_attr_default user_element ''firstName'' [])
                                (fold (\<lambda>f d. process_field report_headers d f) earlier [])))
                     | None \<Rightarrow>
                         AList.update (field_name_of report_headers field) []
                           (fold (\<lambda>f d. process_field report_headers d f) earlier []))))"
proof -
  let ?step = "\<lambda>f d. process_field report_headers d f"
  let ?d = "fold ?step earlier []"
  have "process_field report_headers ?d field =
     (case get_attr list_value_element ''displayName'' of
        Some (c # cs) \<Rightarrow> AList.update (field_name_of report_headers field) (c # cs) ?d
      | _ \<Rightarrow>
         (let reference_text =
                (case find_desc ''Reference'' field of
                   None \<Rightarrow> []
                 | Some reference_element \<Rightarrow> stripped_text reference_element)
          in if reference_text \<noteq> []
             then AList.update (field_name_of report_headers field) reference_text ?d
             else (case find_desc_child ''Users'' ''User'' field of
                     Some user_element \<Rightarrow>
                       AList.update (field_name_of report_headers field) (stripped_text user_element)
                         (AList.update (Some (fmt (field_name_of report_headers field) @ ''_LastName''))
                            (get_attr_default user_element ''lastName'' [])
                           (AList.update (Some (fmt (field_name_of report_headers field) @ ''_FirstName''))
                              (get_attr_default user_element ''firstName'' []) ?d))
                   | None \<Rightarrow> AList.update (field_name_of report_headers field) [] ?d)))"
    using assms(3,4)
    by (simp add: process_field_def extract_list_value_def extract_reference_def extract_users_def
          truthy_def Let_def split: option.splits list.splits)
  with record_at_field [OF assms(1,2), of report_headers] show ?thesis by (simp only:)
qed

theorem list_value_needs_display_name_witness:
  "(0 :: nat) < length (findall_desc ''Record''
      (one_record [sample_field None [(''displayName'', [])] (Some nbsp)]))
   \<and> findall_desc ''Field'' (findall_desc ''Record''
        (one_record [sample_field None [(''displayName'', [])] (Some nbsp)]) ! 0)
       = [] @ sample_field None [(''displayName'', [])] (Some nbsp) # []
   \<and> stripped_text (sample_field None [(''displayName'', [])] (Some nbsp)) = []
   \<and> find_desc_child ''ListValues'' ''ListValue'' (sample_field None [(''displayName'', [])] (Some nbsp))
       = Some (Element ''ListValue'' [(''displayName'', [])] None [])
   \<and> extract_reference (sample_field None [(''displayName'', [])] (Some nbsp)) = Some []
   \<and> get_report_records (one_record [sample_field None [(''displayName'', [])] (Some nbsp)]) [] ! 0
       = [(Some ''Field_7_FirstName'', ''Ada''), (Some ''Field_7_LastName'', ''Byron''),
          (Some ''Field_7'', ''ada@example.org'')]"
proof -
  let ?f = "sample_field None [(''displayName'', [])] (Some nbsp)"
  let ?lv = "Element ''ListValue'' [(''displayName'', [])] None []"
  let ?doc = "one_record [?f]"
  have j: "(0 :: nat) < length (findall_desc ''Record'' ?doc)"
    by (simp add: one_record_def xml_defs)
  have fs: "findall_desc ''Field'' (findall_desc ''Record'' ?doc ! 0) = [] @ ?f # []"
    by (simp add: one_record_def sample_field_def xml_defs)
  have t: "stripped_text ?f = []"
    by (simp add: sample_field_def stripped_text_def)
  have l: "find_desc_child ''ListValues'' ''ListValue'' ?f = Some ?lv"
    by (simp add: sample_field_def xml_defs)
  have n: "field_name_of [] ?f = Some ''Field_7''"
    by (simp add: sample_field_def field_name_of_def get_attr_def fmt_def)
  have r: "extract_reference ?f = Some []"
    by (simp add: sample_field_def nbsp_def extract_reference_def xml_defs stripped_text_def strip_def
          whitespace_code_points_def utf8_def)
  have rf: "find_desc ''Reference'' ?f = Some (Element ''Reference'' [] (Some nbsp) [])"
    by (simp add: sample_field_def xml_defs)
  have re: "stripped_text (Element ''Reference'' [] (Some nbsp) []) = []"
    by (simp add: nbsp_def stripped_text_def strip_def whitespace_code_points_def utf8_def)
  have u: "find_desc_child ''Users'' ''User'' ?f
           = Some (Element ''User'' [(''firstName'', ''Ada''), (''lastName'', ''Byron'')]
                     (Some ''ada@example.org'') [])"
    by (simp add: sample_field_def xml_defs)
  have m: "stripped_text (Element ''User'' [(''firstName'', ''Ada''), (''lastName'', ''Byron'')]
                     (Some ''ada@example.org'') []) = ''ada@example.org''"
    by (simp add: stripped_text_def strip_def whitespace_code_points_def utf8_def)
  from list_value_needs_display_name [OF j fs t l, of "[]"]
  have "get_report_records ?doc [] ! 0
        = [(Some ''Field_7_FirstName'', ''Ada''), (Some ''Field_7_LastName'', ''Byron''),
           (Some ''Field_7'', ''ada@example.org'')]"
    by (simp add: n rf re u m get_attr_def get_attr_default_def fmt_def)
  with j fs t l r show ?thesis by (intro conjI)
qed

text \<open>
  C1, as stated, fails: a field with empty text, no list value, an empty reference and
  a user below it gets the user's identifier as its value and the two name entries.
\<close>

theorem empty_reference_counterexample:
  "findall_desc ''Field'' (findall_desc ''Record'' (one_record [sample_field None [] None]) ! 0)
     = [sample_field None [] None]
   \<and> stripped_text (sample_field None [] None) = []
   \<and> extract_list_value (sample_field None [] None) = None
   \<and> find_desc ''Reference'' (sample_field None [] None) = Some (Element ''Reference'' [] None [])
   \<and> extract_reference (sample_field None [] None) = Some []
   \<and> get_report_records (one_record [sample_field None [] None]) [] =
       [[(Some ''Field_7_FirstName'', ''Ada''), (Some ''Field_7_LastName'', ''Byron''),
         (Some ''Field_7'', ''ada@example.org'')]]
   \<and> map_of (get_report_records (one_record [sample_field None [] None]) [] ! 0) (Some ''Field_7'')
       \<noteq> Some []"
  by (simp add: one_record_def sample_field_def xml_defs normalizer_defs)

text \<open>
  C1, amended. For a field with empty trimmed text and no usable list value whose
  first \<open>Reference\<close> descendant has empty trimmed text, the empty reference is not used
  as a found value: when the field has no \<open>Users/User\<close> descendant the empty string is
  written under its name, and when it has one the user is extracted (the trimmed
  text of the user as the value, first and last name as two more entries). The
  output record is the earlier fields, then these entries, then the later fields.
\<close>

theorem empty_reference_falls_through:
  assumes "j < length (findall_desc ''Record'' xml_tree)"
    and "findall_desc ''Field'' (findall_desc ''Record'' xml_tree ! j) = earlier @ field # later"
    and "stripped_text field = []"
    and "\<not> truthy (case find_desc_child ''ListValues'' ''ListValue'' field of
                      None \<Rightarrow> None
                    | Some list_value_element \<Rightarrow> get_attr list_value_element ''displayName'')"
    and "find_desc ''Reference'' field = Some reference_element"
    and "stripped_text reference_element = []"
  shows "get_report_records xml_tree report_headers ! j =
     fold (\<lambda>f d. process_field report_headers d f) later
       (case find_desc_child ''Users'' ''User'' field of
          None \<Rightarrow>
            AList.update (field_name_of report_headers field) []
              (fold (\<lambda>f d. process_field report_headers d f) earlier [])
        | Some user_element \<Rightarrow>
            AList.update (field_name_of report_headers field) (stripped_text user_element)
              (AList.update (Some (fmt (field_name_of report_headers field) @ ''_LastName''))
                 (get_attr_default user_element ''lastName'' [])
                (AList.update (Some (fmt (field_name_of report_headers field) @ ''_FirstName''))
                   (get_attr_default user_element ''firstName'' [])
                   (fold (\<lambda>f d. process_field report_headers d f) earlier []))))
     \<and> (list_all (\<lambda>g. \<not> writes_key report_headers g (field_name_of report_headers field)) later
          \<longrightarrow> map_of (get_report_records xml_tree report_headers ! j) (field_name_of report_headers field)
              = Some (case find_desc_child ''Users'' ''User'' field of
                        None \<Rightarrow> []
                      | Some user_element \<Rightarrow> stripped_text user_element))"
proof -
  let ?step = "\<lambda>f d. process_field report_headers d f"
  let ?d = "fold ?step earlier []"
  let ?own = "case find_desc_child ''Users'' ''User'' field of
          None \<Rightarrow> AList.update (field_name_of report_headers field) [] ?d
        | Some user_element \<Rightarrow>
            AList.update (field_name_of report_headers field) (stripped_text user_element)
              (AList.update (Some (fmt (field_name_of report_headers field) @ ''_LastName''))
                 (get_attr_default user_element ''lastName'' [])
                (AList.update (Some (fmt (field_name_of report_headers field) @ ''_FirstName''))
                   (get_attr_default user_element ''firstName'' []) ?d))"
  have own: "process_field report_headers ?d field = ?own"
    using assms(3-6)
    by (simp add: process_field_def extract_list_value_def extract_reference_def extract_users_def
          truthy_def Let_def split: option.splits)
  have out: "get_report_records xml_tree report_headers ! j = fold ?step later ?own"
    using record_at_field [OF assms(1,2), of report_headers] by (simp only: own)
  have val: "map_of ?own (field_name_of report_headers field)
             = Some (case find_desc_child ''Users'' ''User'' field of
                       None \<Rightarrow> [] | Some user_element \<Rightarrow> stripped_text user_element)"
    by (simp add: update_conv' split: option.splits)
  have "map_of (get_report_records xml_tree report_headers ! j) (field_name_of report_headers field)
          = Some (case find_desc_child ''Users'' ''User'' field of
                    None \<Rightarrow> [] | Some user_element \<Rightarrow> stripped_text user_element)"
    if "list_all (\<lambda>g. \<not> writes_key report_headers g (field_name_of report_headers field)) later"
    using fold_untouched [OF that, of ?own] by (simp only: out val)
  with out show ?thesis by blast
qed


theorem empty_reference_falls_through_witness:
  "(0 :: nat) < length (findall_desc ''Record'' (one_record [sample_field None [] (Some nbsp)]))
   \<and> findall_desc ''Field'' (findall_desc ''Record'' (one_record [sample_field None [] (Some nbsp)]) ! 0)
       = [] @ sample_field None [] (Some nbsp) # []
   \<and> stripped_text (sample_field None [] (Some nbsp)) = []
   \<and> \<not> truthy (case find_desc_child ''ListValues'' ''ListValue'' (sample_field None [] (Some nbsp)) of
                   None \<Rightarrow> None
                 | Some list_value_element \<Rightarrow> get_attr list_value_element ''displayName'')
   \<and> find_desc ''Reference'' (sample_field None [] (Some nbsp))
       = Some (Element ''Reference'' [] (Some nbsp) [])
   \<and> stripped_text (Element ''Reference'' [] (Some nbsp) []) = []
   \<and> get_report_records (one_record [sample_field None [] (Some nbsp)]) [] ! 0
       = [(Some ''Field_7_FirstName'', ''Ada''), (Some ''Field_7_LastName'', ''Byron''),
          (Some ''Field_7'', ''ada@example.org'')]"
proof -
  let ?r = "Element ''Reference'' [] (Some nbsp) []"
  let ?f = "sample_field None [] (Some nbsp)"
  let ?doc = "one_record [?f]"
  have j: "(0 :: nat) < length (findall_desc ''Record'' ?doc)"
    by (simp add: one_record_def xml_defs)
  have fs: "findall_desc ''Field'' (findall_desc ''Record'' ?doc ! 0) = [] @ ?f # []"
    by (simp add: one_record_def sample_field_def xml_defs)
  have t: "stripped_text ?f = []" by (simp add: sample_field_def stripped_text_def)
  have l: "\<not> truthy (case find_desc_child ''ListValues'' ''ListValue'' ?f of
                          None \<Rightarrow> None
                        | Some list_value_element \<Rightarrow> get_attr list_value_element ''displayName'')"
    by (simp add: sample_field_def xml_defs truthy_def)
  have r: "find_desc ''Reference'' ?f = Some ?r" by (simp add: sample_field_def xml_defs)
  have e: "stripped_text ?r = []"
    by (simp add: nbsp_def stripped_text_def strip_def whitespace_code_points_def utf8_def)
  have u: "find_desc_child ''Users'' ''User'' ?f
           = Some (Element ''User'' [(''firstName'', ''Ada''), (''lastName'', ''Byron'')]
                     (Some ''ada@example.org'') [])"
    by (simp add: sample_field_def xml_defs)
  have m: "stripped_text (Element ''User'' [(''firstName'', ''Ada''), (''lastName'', ''Byron'')]
                     (Some ''ada@example.org'') []) = ''ada@example.org''"
    by (simp add: stripped_text_def strip_def whitespace_code_points_def utf8_def)
  have n: "field_name_of [] ?f = Some ''Field_7''"
    by (simp add: sample_field_def field_name_of_def get_attr_def fmt_def)
  from empty_reference_falls_through [OF j fs t l r e, of "[]", THEN conjunct1]
  have "get_report_records ?doc [] ! 0
        = [(Some ''Field_7_FirstName'', ''Ada''), (Some ''Field_7_LastName'', ''Byron''),
           (Some ''Field_7'', ''ada@example.org'')]"
    by (simp add: u m n get_attr_default_def fmt_def)
  with j fs t l r e show ?thesis by (intro conjI)
qed

section \<open>Failures and the run\<close>

lemma fetch_all_abort:
  assumes "header_files E ''templates/headers/search_records_by_report.json'' = Some hs"
    and "session_pages E hs tok g url 1 docs" and "list_all has_records docs"
    and "snd (fetch_page E hs tok g url (Suc (length docs))) = Inl e"
  shows "fetch_all_report_pages E tok g url =
         Some (sent_requests E hs tok g url 1 (Suc (length docs)), Inl e)"
  using fetch_loop_abort [OF assms(2,3), of e "[]" "[]"] assms(1,4)
  by (simp add: fetch_all_report_pages_def load_headers_def)

text \<open>
  Two worlds in which every round of the loop sees the same page give the same fetch,
  also when the fetch never returns.
\<close>

lemma fetch_loop_some_cong:
  assumes "fetch_loop E hs tok g url p df sent = Some y"
    and "\<And>q. fetch_page E' hs tok g url q = fetch_page E hs tok g url q"
  shows "fetch_loop E' hs tok g url p df sent = Some y"
proof -
  let ?Q = "\<lambda>(E :: env) (hs :: http_headers) tok g (url :: string) (p :: nat) (df :: table) sent y.
              (\<forall>q. fetch_page E' hs tok g url q = fetch_page E hs tok g url q)
                \<longrightarrow> fetch_loop E' hs tok g url p df sent = Some y"
  have "?Q E hs tok g url p df sent y"
  proof (rule fetch_loop.raw_induct [where P = ?Q, OF _ assms(1)], goal_cases)
    case (1 loop E hs tok g url p df sent y)
    show ?case
    proof
      assume agree: "\<forall>q. fetch_page E' hs tok g url q = fetch_page E hs tok g url q"
      obtain rs r where fp: "fetch_page E hs tok g url p = (rs, r)"
        by (cases "fetch_page E hs tok g url p")
      from agree fp have fp': "fetch_page E' hs tok g url p = (rs, r)" by simp
      note body = 1(2) [unfolded fp prod.case]
      show "fetch_loop E' hs tok g url p df sent = Some y"
      proof (cases r)
        case (Inl e)
        with body fp' show ?thesis by (subst fetch_loop.simps) simp
      next
        case (Inr x)
        show ?thesis
        proof (cases "findall_desc ''Record'' x = []")
          case True
          with body Inr fp' show ?thesis by (subst fetch_loop.simps) simp
        next
          case False
          with body Inr
          have "loop E hs tok g url (p + 1) (get_report_records x (get_report_headers x) @ df) (sent @ rs)
                = Some y"
            by (simp add: Let_def)
          from 1(1) [OF this] agree
          have "fetch_loop E' hs tok g url (p + 1) (get_report_records x (get_report_headers x) @ df)
                  (sent @ rs) = Some y"
            by blast
          with False Inr fp' show ?thesis by (subst fetch_loop.simps) (simp add: Let_def)
        qed
      qed
    qed
  qed
  with assms(2) show ?thesis by blast
qed

lemma fetch_loop_cong:
  assumes "\<And>q. fetch_page E' hs tok g url q = fetch_page E hs tok g url q"
  shows "fetch_loop E' hs tok g url p df sent = fetch_loop E hs tok g url p df sent"
proof (cases "fetch_loop E hs tok g url p df sent")
  case (Some y)
  from fetch_loop_some_cong [OF Some assms] Some show ?thesis by simp
next
  case None
  show ?thesis
  proof (cases "fetch_loop E' hs tok g url p df sent")
    case (Some y)
    from fetch_loop_some_cong [OF Some, of E] assms
    have "fetch_loop E hs tok g url p df sent = Some y" by simp
    with None show ?thesis by simp
  next
    case none: None
    with None show ?thesis by simp
  qed
qed

lemma fetch_all_cong:
  assumes "header_files E' = header_files E"
    and "\<And>hs q. fetch_page E' hs tok g url q = fetch_page E hs tok g url q"
  shows "fetch_all_report_pages E' tok g url = fetch_all_report_pages E tok g url"
  using assms(1) fetch_loop_cong [of E' _ tok g url E, OF assms(2)]
  by (simp add: fetch_all_report_pages_def load_headers_def split: option.splits)

lemma fetch_page_with_status_codes:
  "fetch_page (with_status_codes st E) hs tok g url p = fetch_page E hs tok g url p"
  by (simp add: fetch_page_def with_status_codes_def archer_incident_report_xml_def load_template_def
        response_to_xml_def split: sum.splits option.splits)

lemma fetch_all_with_status_codes:
  "fetch_all_report_pages (with_status_codes st E) tok g url = fetch_all_report_pages E tok g url"
  by (rule fetch_all_cong) (simp_all add: fetch_page_with_status_codes, simp add: with_status_codes_def)

text \<open>The requests of a fetch that returns are those of some number of rounds.\<close>

lemma fetch_page_requests:
  "req \<in> set (fst (fetch_page E hs tok g url p)) \<Longrightarrow>
   archer_incident_report_xml E tok g p = Inr (snd req)"
  by (auto simp: fetch_page_def split: sum.splits)

lemma fetch_rounds_requests:
  "req \<in> set (fetch_rounds k E hs tok g url p) \<Longrightarrow>
   \<exists>n. archer_incident_report_xml E tok g n = Inr (snd req)"
proof (induction k arbitrary: p)
  case 0
  then show ?case by simp
next
  case (Suc k)
  obtain rs r where fp: "fetch_page E hs tok g url p = (rs, r)"
    by (cases "fetch_page E hs tok g url p")
  from Suc.prems fp have "req \<in> set rs \<or> req \<in> set (fetch_rounds k E hs tok g url (p + 1))"
    by (auto split: sum.splits if_splits)
  then show ?case
  proof
    assume "req \<in> set rs"
    with fp fetch_page_requests [of req E hs tok g url p] show ?thesis by auto
  next
    assume "req \<in> set (fetch_rounds k E hs tok g url (p + 1))"
    then show ?thesis by (rule Suc.IH)
  qed
qed

lemma fetch_loop_rounds:
  assumes "fetch_loop E hs tok g url p df sent = Some y"
  shows "\<exists>k. fst y = sent @ fetch_rounds k E hs tok g url p"
proof -
  let ?Q = "\<lambda>(E :: env) (hs :: http_headers) tok g (url :: string) (p :: nat) (df :: table) sent y.
              \<exists>k. fst y = sent @ fetch_rounds k E hs tok g url p"
  have "?Q E hs tok g url p df sent y"
  proof (rule fetch_loop.raw_induct [where P = ?Q, OF _ assms], goal_cases)
    case (1 loop E hs tok g url p df sent y)
    obtain rs r where fp: "fetch_page E hs tok g url p = (rs, r)"
      by (cases "fetch_page E hs tok g url p")
    note body = 1(2) [unfolded fp prod.case]
    show ?case
    proof (cases r)
      case (Inl e)
      with body have "fst y = sent @ rs" by auto
      with fp Inl show ?thesis by (intro exI [of _ "Suc 0"]) simp
    next
      case (Inr x)
      show ?thesis
      proof (cases "findall_desc ''Record'' x = []")
        case True
        with body Inr have "fst y = sent @ rs" by auto
        with fp Inr True show ?thesis by (intro exI [of _ "Suc 0"]) simp
      next
        case False
        with body Inr
        have "loop E hs tok g url (p + 1) (get_report_records x (get_report_headers x) @ df) (sent @ rs)
              = Some y"
          by (simp add: Let_def)
        from 1(1) [OF this]
        obtain k where "fst y = (sent @ rs) @ fetch_rounds k E hs tok g url (p + 1)" by blast
        with fp Inr False show ?thesis by (intro exI [of _ "Suc k"]) simp
      qed
    qed
  qed
  then show ?thesis .
qed

text \<open>
  C8, as stated, fails: the status code of a page response is never read. A first
  page answered with status 500 and a body that unwraps to a report page is
  processed like any other page; the fetch returns a table and the run stores it.
\<close>

theorem status_500_counterexample:
  "post error_status_world ''https://archer/search'' ''token=TOKEN-1;report=CONFIG-GUID;page=1''
       [(''Content-Type'', ''text/xml'')]
     = Inr \<lparr> status_code = 500, resp_text = ''response 1'' \<rparr>
   \<and> fetch_all_report_pages error_status_world (Some ''TOKEN-1'') ''CONFIG-GUID'' ''https://archer/search''
     = Some ([page_request ''TOKEN-1'' ''CONFIG-GUID'' ''1'', page_request ''TOKEN-1'' ''CONFIG-GUID'' ''2''],
             Inr [[(Some ''Date Created'', ''01/01/2024''), (Some ''Date/Time Closed'', ''05/01/2024'')],
                  [(Some ''Date Created'', ''01/01/2024''), (Some ''Date/Time Closed'', [])]])
   \<and> main error_status_world
     = Some \<lparr> requests = [session_request, page_request ''TOKEN-1'' ''CONFIG-GUID'' ''1'',
                           page_request ''TOKEN-1'' ''CONFIG-GUID'' ''2''],
               stored = Some [[(Some ''Date Created'', Datetime (Some 19723)),
                               (Some ''Date/Time Closed'', Datetime (Some 19727)),
                               (Some ''Days Open'', Number (Some 4))],
                              [(Some ''Date Created'', Datetime (Some 19723)),
                               (Some ''Date/Time Closed'', Datetime None),
                               (Some ''Days Open'', Number (Some 9))]],
               outcome = Uploaded \<rparr>"
proof -
  let ?W = error_status_world
  let ?hs = "[(''Content-Type'', ''text/xml'')]"
  let ?tbl = "[[(Some ''Date Created'', ''01/01/2024''), (Some ''Date/Time Closed'', ''05/01/2024'')],
               [(Some ''Date Created'', ''01/01/2024''), (Some ''Date/Time Closed'', [])]]"
  have p: "post ?W ''https://archer/search'' ''token=TOKEN-1;report=CONFIG-GUID;page=1'' ?hs
             = Inr \<lparr> status_code = 500, resp_text = ''response 1'' \<rparr>"
    by (simp add: error_status_world_def world_defs str_nat.simps)
  have h: "header_files ?W ''templates/headers/search_records_by_report.json'' = Some ?hs"
    by (simp add: error_status_world_def served_def small_world_def)
  have s: "session_pages ?W ?hs (Some ''TOKEN-1'') ''CONFIG-GUID'' ''https://archer/search'' 1
             ([incident_page] @ [report_page [] []])"
    by (simp add: error_status_world_def world_defs xml_defs fmt_def str_nat.simps)
  have d: "list_all has_records [incident_page]"
    by (simp add: has_records_def incident_page_def report_page_def xml_defs)
  have z: "\<not> has_records (report_page [] [])"
    by (simp add: has_records_def report_page_def xml_defs)
  have q: "sent_requests ?W ?hs (Some ''TOKEN-1'') ''CONFIG-GUID'' ''https://archer/search'' 1
             (Suc (length [incident_page]))
           = [page_request ''TOKEN-1'' ''CONFIG-GUID'' ''1'', page_request ''TOKEN-1'' ''CONFIG-GUID'' ''2'']"
    by (simp add: sent_requests_def upt_rec error_status_world_def world_defs xml_defs fmt_def str_nat.simps)
  have r: "concat (rev (map page_records [incident_page])) = ?tbl"
    by (simp add: page_records_def incident_page_def report_page_def xml_defs normalizer_defs)
  have f: "fetch_all_report_pages ?W (Some ''TOKEN-1'') ''CONFIG-GUID'' ''https://archer/search''
             = Some ([page_request ''TOKEN-1'' ''CONFIG-GUID'' ''1'', page_request ''TOKEN-1'' ''CONFIG-GUID'' ''2''],
                     Inr ?tbl)"
    using fetch_all_session [OF h s d z] unfolding q r .
  have a: "archer_auth_token ?W ''https://archer'' = ([session_request], Inr (Some ''TOKEN-1''))"
    by (simp add: archer_auth_token_def error_status_world_def world_defs xml_defs)
  have e: "enrich ?W ?tbl
             = Inr [[(Some ''Date Created'', Datetime (Some 19723)),
                     (Some ''Date/Time Closed'', Datetime (Some 19727)),
                     (Some ''Days Open'', Number (Some 4))],
                    [(Some ''Date Created'', Datetime (Some 19723)),
                     (Some ''Date/Time Closed'', Datetime None),
                     (Some ''Days Open'', Number (Some 9))]]"
    by (simp add: enrich_def columns_def convert_column_def days_open_def date_cell_def
          days_between_def days_from_civil_def fmt_def error_status_world_def served_def small_world_def Let_def)
  have c: "ARCHER_PROD_URL ?W = ''https://archer''" "INCIDENT_REPORT_TOKEN ?W = ''CONFIG-GUID''"
      "secret ?W ''archer-prod-incident-report-guid'' = Inr ''VAULT-GUID''"
      "secret ?W ''archer-search-url'' = Inr ''https://archer/search''"
      "store ?W = (\<lambda>df. True)"
    by (simp_all add: error_status_world_def served_def small_world_def secret_def)
  have m: "main ?W = Some \<lparr> requests = [session_request, page_request ''TOKEN-1'' ''CONFIG-GUID'' ''1'',
                           page_request ''TOKEN-1'' ''CONFIG-GUID'' ''2''],
               stored = Some [[(Some ''Date Created'', Datetime (Some 19723)),
                               (Some ''Date/Time Closed'', Datetime (Some 19727)),
                               (Some ''Days Open'', Number (Some 4))],
                              [(Some ''Date Created'', Datetime (Some 19723)),
                               (Some ''Date/Time Closed'', Datetime None),
                               (Some ''Days Open'', Number (Some 9))]],
               outcome = Uploaded \<rparr>"
    by (simp add: main_def c a f e)
  from p f m show ?thesis by simp
qed


text \<open>
  C8, amended. When the request for a page fails in transport, or its response does
  not unwrap (the envelope or the inner document is no XML, or the result element is
  missing or has no text), the fetch is aborted at that point: the error comes out of
  \<open>fetch_all_report_pages\<close> and the run stores nothing, whatever earlier pages held.
  The status code plays no part: with any other status codes on the responses the
  fetch does the same, so a page answered with a status outside 2xx whose body
  unwraps is processed like any other page.
\<close>

theorem unreadable_page_aborts_run:
  assumes "archer_auth_token E (ARCHER_PROD_URL E) = (auth_reqs, Inr tok)"
    and "get_secret E ''archer-prod-incident-report-guid'' = Some vault_guid"
    and "get_secret E ''archer-search-url'' = Some url"
    and "header_files E ''templates/headers/search_records_by_report.json'' = Some hs"
    and "session_pages E hs tok (INCIDENT_REPORT_TOKEN E) url 1 docs"
    and "list_all has_records docs"
    and "snd (fetch_page E hs tok (INCIDENT_REPORT_TOKEN E) url (Suc (length docs))) = Inl e"
  shows "\<exists>reqs.
           fetch_all_report_pages E tok (INCIDENT_REPORT_TOKEN E) url = Some (reqs, Inl e)
           \<and> main E = Some \<lparr> requests = auth_reqs @ reqs, stored = None, outcome = FetchFailed e \<rparr>
           \<and> (\<forall>st tok' g' url'.
                 fetch_all_report_pages (with_status_codes st E) tok' g' url'
                   = fetch_all_report_pages E tok' g' url')"
proof -
  let ?reqs = "sent_requests E hs tok (INCIDENT_REPORT_TOKEN E) url 1 (Suc (length docs))"
  have f: "fetch_all_report_pages E tok (INCIDENT_REPORT_TOKEN E) url = Some (?reqs, Inl e)"
    by (rule fetch_all_abort [OF assms(4-7)])
  have m: "main E = Some \<lparr> requests = auth_reqs @ ?reqs, stored = None, outcome = FetchFailed e \<rparr>"
    by (simp add: main_def secret_def assms(1-3) f)
  from f m show ?thesis by (simp add: fetch_all_with_status_codes)
qed

theorem unreadable_page_aborts_run_witness:
  "archer_auth_token unavailable_world (ARCHER_PROD_URL unavailable_world)
     = ([session_request], Inr (Some ''TOKEN-1''))
   \<and> get_secret unavailable_world ''archer-prod-incident-report-guid'' = Some ''VAULT-GUID''
   \<and> get_secret unavailable_world ''archer-search-url'' = Some ''https://archer/search''
   \<and> header_files unavailable_world ''templates/headers/search_records_by_report.json''
       = Some [(''Content-Type'', ''text/xml'')]
   \<and> session_pages unavailable_world [(''Content-Type'', ''text/xml'')] (Some ''TOKEN-1'')
       (INCIDENT_REPORT_TOKEN unavailable_world) ''https://archer/search'' 1 [incident_page]
   \<and> list_all has_records [incident_page]
   \<and> post unavailable_world ''https://archer/search'' ''token=TOKEN-1;report=CONFIG-GUID;page=2''
        [(''Content-Type'', ''text/xml'')]
       = Inr \<lparr> status_code = 503, resp_text = ''Service Unavailable'' \<rparr>
   \<and> snd (fetch_page unavailable_world [(''Content-Type'', ''text/xml'')] (Some ''TOKEN-1'')
         (INCIDENT_REPORT_TOKEN unavailable_world) ''https://archer/search'' (Suc (length [incident_page])))
       = Inl ParseError
   \<and> (\<exists>reqs.
         fetch_all_report_pages unavailable_world (Some ''TOKEN-1'') (INCIDENT_REPORT_TOKEN unavailable_world)
            ''https://archer/search'' = Some (reqs, Inl ParseError)
         \<and> main unavailable_world
            = Some \<lparr> requests = [session_request] @ reqs, stored = None, outcome = FetchFailed ParseError \<rparr>)
   \<and> fetch_all_report_pages (with_status_codes (\<lambda>url body. 200) unavailable_world) (Some ''TOKEN-1'')
         ''CONFIG-GUID'' ''https://archer/search''
       = fetch_all_report_pages unavailable_world (Some ''TOKEN-1'') ''CONFIG-GUID'' ''https://archer/search''"
proof -
  let ?W = unavailable_world
  let ?hs = "[(''Content-Type'', ''text/xml'')]"
  have a: "archer_auth_token ?W (ARCHER_PROD_URL ?W) = ([session_request], Inr (Some ''TOKEN-1''))"
    by (simp add: archer_auth_token_def unavailable_world_def world_defs xml_defs)
  have g: "get_secret ?W ''archer-prod-incident-report-guid'' = Some ''VAULT-GUID''"
    by (simp add: unavailable_world_def small_world_def)
  have u: "get_secret ?W ''archer-search-url'' = Some ''https://archer/search''"
    by (simp add: unavailable_world_def small_world_def)
  have h: "header_files ?W ''templates/headers/search_records_by_report.json'' = Some ?hs"
    by (simp add: unavailable_world_def small_world_def)
  have s: "session_pages ?W ?hs (Some ''TOKEN-1'') (INCIDENT_REPORT_TOKEN ?W) ''https://archer/search'' 1
             [incident_page]"
    by (simp add: unavailable_world_def world_defs xml_defs fmt_def str_nat.simps)
  have d: "list_all has_records [incident_page]"
    by (simp add: has_records_def incident_page_def report_page_def xml_defs)
  have p: "post ?W ''https://archer/search'' ''token=TOKEN-1;report=CONFIG-GUID;page=2'' ?hs
             = Inr \<lparr> status_code = 503, resp_text = ''Service Unavailable'' \<rparr>"
    by (simp add: unavailable_world_def world_defs)
  have e: "snd (fetch_page ?W ?hs (Some ''TOKEN-1'') (INCIDENT_REPORT_TOKEN ?W) ''https://archer/search''
             (Suc (length [incident_page]))) = Inl ParseError"
    by (simp add: unavailable_world_def world_defs xml_defs fmt_def str_nat.simps)
  from unreadable_page_aborts_run [OF a g u h s d e]
  obtain reqs where
    f: "fetch_all_report_pages ?W (Some ''TOKEN-1'') (INCIDENT_REPORT_TOKEN ?W)
          ''https://archer/search'' = Some (reqs, Inl ParseError)"
    and m: "main ?W
          = Some \<lparr> requests = [session_request] @ reqs, stored = None, outcome = FetchFailed ParseError \<rparr>"
    and i: "\<forall>st tok' g' url'.
              fetch_all_report_pages (with_status_codes st ?W) tok' g' url'
                = fetch_all_report_pages ?W tok' g' url'"
    by blast
  from f m have x: "\<exists>reqs.
         fetch_all_report_pages ?W (Some ''TOKEN-1'') (INCIDENT_REPORT_TOKEN ?W)
            ''https://archer/search'' = Some (reqs, Inl ParseError)
         \<and> main ?W
            = Some \<lparr> requests = [session_request] @ reqs, stored = None, outcome = FetchFailed ParseError \<rparr>"
    by blast
  from i have y: "fetch_all_report_pages (with_status_codes (\<lambda>url body. 200) ?W) (Some ''TOKEN-1'')
         ''CONFIG-GUID'' ''https://archer/search''
       = fetch_all_report_pages ?W (Some ''TOKEN-1'') ''CONFIG-GUID'' ''https://archer/search''"
    by blast
  from a g u h s d p e x y show ?thesis by (intro conjI)
qed


text \<open>
  C2. The run is supposed to stop when the handshake fails. Evaluated where the
  session request is answered with status 500: \<open>archer_auth_token\<close> returns the string
  \<open>Error: 500\<close> instead of raising, \<open>main\<close> takes it for the token, and a page request
  carrying it is posted.
\<close>

theorem failed_handshake_still_fetches:
  "post refused_world (fst session_request) (snd session_request) [(''Content-Type'', ''text/xml'')]
     = Inr \<lparr> status_code = 500, resp_text = ''Internal Server Error'' \<rparr>
   \<and> archer_auth_token refused_world (ARCHER_PROD_URL refused_world)
     = ([session_request], Inr (Some ''Error: 500''))
   \<and> main refused_world
     = Some \<lparr> requests = [session_request, page_request ''Error: 500'' ''CONFIG-GUID'' ''1''],
               stored = None, outcome = FetchFailed ParseError \<rparr>"
proof -
  let ?W = refused_world
  let ?hs = "[(''Content-Type'', ''text/xml'')]"
  have p: "post ?W (fst session_request) (snd session_request) ?hs
             = Inr \<lparr> status_code = 500, resp_text = ''Internal Server Error'' \<rparr>"
    by (simp add: refused_world_def world_defs)
  have a: "archer_auth_token ?W (ARCHER_PROD_URL ?W) = ([session_request], Inr (Some ''Error: 500''))"
    by (simp add: archer_auth_token_def refused_world_def world_defs xml_defs str_nat.simps)
  have c: "INCIDENT_REPORT_TOKEN ?W = ''CONFIG-GUID''"
      "secret ?W ''archer-prod-incident-report-guid'' = Inr ''VAULT-GUID''"
      "secret ?W ''archer-search-url'' = Inr ''https://archer/search''"
    by (simp_all add: refused_world_def small_world_def secret_def)
  have fp: "fetch_page ?W ?hs (Some ''Error: 500'') ''CONFIG-GUID'' ''https://archer/search'' 1
             = ([page_request ''Error: 500'' ''CONFIG-GUID'' ''1''], Inl ParseError)"
    by (simp add: refused_world_def world_defs xml_defs fmt_def str_nat.simps)
  have f: "fetch_all_report_pages ?W (Some ''Error: 500'') ''CONFIG-GUID'' ''https://archer/search''
             = Some ([page_request ''Error: 500'' ''CONFIG-GUID'' ''1''], Inl ParseError)"
    using fetch_loop_error [OF fp, of "[]" "[]"]
    by (simp add: fetch_all_report_pages_def load_headers_def refused_world_def small_world_def)
  have m: "main ?W = Some \<lparr> requests = [session_request, page_request ''Error: 500'' ''CONFIG-GUID'' ''1''],
               stored = None, outcome = FetchFailed ParseError \<rparr>"
    by (simp add: main_def a c f)
  from p a m show ?thesis by simp
qed


section \<open>The run on the two incidents\<close>

lemma incident_world_constants:
  "ARCHER_PROD_URL incident_world = ''https://archer''"
  "INCIDENT_REPORT_TOKEN incident_world = ''CONFIG-GUID''"
  "get_secret incident_world ''archer-prod-incident-report-guid'' = Some ''VAULT-GUID''"
  "get_secret incident_world ''archer-search-url'' = Some ''https://archer/search''"
  "today incident_world = days_from_civil 2024 1 10"
  "store incident_world = (\<lambda>df. True)"
  "to_datetime incident_world =
     (\<lambda>column i.
        case drop i column of
          Some (Str s) # _ \<Rightarrow>
            map_of [(''01/01/2024'', days_from_civil 2024 1 1),
                    (''05/01/2024'', days_from_civil 2024 1 5)] s
        | _ \<Rightarrow> None)"
  by (simp_all add: incident_world_def served_def small_world_def)

lemma incident_world_token:
  "archer_auth_token incident_world ''https://archer'' = ([session_request], Inr (Some ''TOKEN-1''))"
  by (simp add: archer_auth_token_def incident_world_def world_defs xml_defs)

lemma incident_world_fetch:
  "fetch_all_report_pages incident_world (Some ''TOKEN-1'') ''CONFIG-GUID'' ''https://archer/search''
     = Some ([(''https://archer/search'', ''token=TOKEN-1;report=CONFIG-GUID;page=1''),
              (''https://archer/search'', ''token=TOKEN-1;report=CONFIG-GUID;page=2'')],
             Inr [[(Some ''Date Created'', ''01/01/2024''), (Some ''Date/Time Closed'', ''05/01/2024'')],
                  [(Some ''Date Created'', ''01/01/2024''), (Some ''Date/Time Closed'', [])]])"
proof -
  let ?W = incident_world
  let ?hs = "[(''Content-Type'', ''text/xml'')]"
  have h: "header_files ?W ''templates/headers/search_records_by_report.json'' = Some ?hs"
    by (simp add: incident_world_def served_def small_world_def)
  have s: "session_pages ?W ?hs (Some ''TOKEN-1'') ''CONFIG-GUID'' ''https://archer/search'' 1
             ([incident_page] @ [report_page [] []])"
    by (simp add: incident_world_def world_defs xml_defs fmt_def str_nat.simps)
  have d: "list_all has_records [incident_page]"
    by (simp add: has_records_def incident_page_def report_page_def xml_defs)
  have z: "\<not> has_records (report_page [] [])"
    by (simp add: has_records_def report_page_def xml_defs)
  have q: "sent_requests ?W ?hs (Some ''TOKEN-1'') ''CONFIG-GUID'' ''https://archer/search'' 1
             (Suc (length [incident_page]))
           = [(''https://archer/search'', ''token=TOKEN-1;report=CONFIG-GUID;page=1''),
              (''https://archer/search'', ''token=TOKEN-1;report=CONFIG-GUID;page=2'')]"
    by (simp add: sent_requests_def upt_rec incident_world_def world_defs xml_defs fmt_def str_nat.simps)
  have r: "concat (rev (map page_records [incident_page]))
           = [[(Some ''Date Created'', ''01/01/2024''), (Some ''Date/Time Closed'', ''05/01/2024'')],
              [(Some ''Date Created'', ''01/01/2024''), (Some ''Date/Time Closed'', [])]]"
    by (simp add: page_records_def incident_page_def report_page_def xml_defs normalizer_defs)
  show ?thesis
    using fetch_all_session [OF h s d z] unfolding q r .
qed

lemma incident_world_enrich:
  "enrich incident_world
     [[(Some ''Date Created'', ''01/01/2024''), (Some ''Date/Time Closed'', ''05/01/2024'')],
      [(Some ''Date Created'', ''01/01/2024''), (Some ''Date/Time Closed'', [])]]
   = Inr [[(Some ''Date Created'', Datetime (Some 19723)),
           (Some ''Date/Time Closed'', Datetime (Some 19727)),
           (Some ''Days Open'', Number (Some 4))],
          [(Some ''Date Created'', Datetime (Some 19723)),
           (Some ''Date/Time Closed'', Datetime None),
           (Some ''Days Open'', Number (Some 9))]]"
  by (simp add: enrich_def columns_def convert_column_def days_open_def date_cell_def
        days_between_def days_from_civil_def fmt_def incident_world_constants Let_def)

lemma incident_world_run:
  "main incident_world
     = Some \<lparr> requests = [session_request,
                           (''https://archer/search'', ''token=TOKEN-1;report=CONFIG-GUID;page=1''),
                           (''https://archer/search'', ''token=TOKEN-1;report=CONFIG-GUID;page=2'')],
               stored = Some [[(Some ''Date Created'', Datetime (Some 19723)),
                               (Some ''Date/Time Closed'', Datetime (Some 19727)),
                               (Some ''Days Open'', Number (Some 4))],
                              [(Some ''Date Created'', Datetime (Some 19723)),
                               (Some ''Date/Time Closed'', Datetime None),
                               (Some ''Days Open'', Number (Some 9))]],
               outcome = Uploaded \<rparr>"
  by (simp add: main_def secret_def incident_world_constants incident_world_token
        incident_world_fetch incident_world_enrich)

section \<open>The report identifier of the page requests\<close>

text \<open>
  C3, as stated, fails: in a run whose vault holds \<open>VAULT-GUID\<close> as the report
  identifier and whose configuration constant is \<open>CONFIG-GUID\<close>, the page requests
  carry \<open>CONFIG-GUID\<close>; the requests that the vault's value would give are different.
\<close>

theorem vault_identifier_counterexample:
  "get_secret incident_world ''archer-prod-incident-report-guid'' = Some ''VAULT-GUID''
   \<and> INCIDENT_REPORT_TOKEN incident_world = ''CONFIG-GUID''
   \<and> map_option requests (main incident_world)
     = Some [session_request,
             (''https://archer/search'', ''token=TOKEN-1;report=CONFIG-GUID;page=1''),
             (''https://archer/search'', ''token=TOKEN-1;report=CONFIG-GUID;page=2'')]
   \<and> archer_incident_report_xml incident_world (Some ''TOKEN-1'') ''VAULT-GUID'' 1
     = Inr ''token=TOKEN-1;report=VAULT-GUID;page=1''
   \<and> archer_incident_report_xml incident_world (Some ''TOKEN-1'') ''VAULT-GUID'' 2
     = Inr ''token=TOKEN-1;report=VAULT-GUID;page=2''"
proof -
  have x: "archer_incident_report_xml incident_world (Some ''TOKEN-1'') ''VAULT-GUID'' 1
             = Inr ''token=TOKEN-1;report=VAULT-GUID;page=1''"
    "archer_incident_report_xml incident_world (Some ''TOKEN-1'') ''VAULT-GUID'' 2
             = Inr ''token=TOKEN-1;report=VAULT-GUID;page=2''"
    by (simp_all add: incident_world_def world_defs fmt_def str_nat.simps)
  with incident_world_constants(2,3) incident_world_run show ?thesis by simp
qed

text \<open>
  C3, amended. Every page request of a run is the request template filled with the
  token of the run, a page number and the configuration constant
  \<open>INCIDENT_REPORT_TOKEN\<close> as the report identifier, in a run that returns and, round
  by round, in one that does not. The report identifier of the vault has to be
  there, or the run ends before any page request; its value is not passed on, and
  the run is the same with any other value.
\<close>

theorem page_requests_carry_config_identifier:
  assumes "archer_auth_token E (ARCHER_PROD_URL E) = (auth_reqs, Inr tok)"
  shows "(get_secret E ''archer-prod-incident-report-guid'' = None
            \<longrightarrow> main E = Some \<lparr> requests = auth_reqs, stored = None,
                                 outcome = SecretsFailed SecretNotFound \<rparr>)
         \<and> (\<forall>v v'. get_secret E ''archer-prod-incident-report-guid'' = Some v
               \<longrightarrow> main (E\<lparr>get_secret := (get_secret E)(''archer-prod-incident-report-guid'' \<mapsto> v')\<rparr>)
                     = main E)
         \<and> (\<forall>k. \<exists>page_reqs.
               main_requests k E = auth_reqs @ page_reqs
               \<and> (\<forall>req \<in> set page_reqs.
                     \<exists>n. archer_incident_report_xml E tok (INCIDENT_REPORT_TOKEN E) n = Inr (snd req)))
         \<and> (\<forall>r. main E = Some r \<longrightarrow> (\<exists>k. requests r = main_requests k E))"
proof (intro conjI allI impI)
  assume "get_secret E ''archer-prod-incident-report-guid'' = None"
  with assms show "main E = Some \<lparr> requests = auth_reqs, stored = None,
                                   outcome = SecretsFailed SecretNotFound \<rparr>"
    by (simp add: main_def secret_def)
next
  fix v v'
  assume v: "get_secret E ''archer-prod-incident-report-guid'' = Some v"
  let ?E' = "E\<lparr>get_secret := (get_secret E)(''archer-prod-incident-report-guid'' \<mapsto> v')\<rparr>"
  have auth: "\<And>a. archer_auth_token ?E' a = archer_auth_token E a"
    by (simp add: archer_auth_token_def secret_def load_template_def load_headers_def Let_def
             cong: sum.case_cong option.case_cong if_cong)
  have guid: "secret ?E' ''archer-prod-incident-report-guid'' = Inr v'"
    "secret E ''archer-prod-incident-report-guid'' = Inr v"
    using v by (simp_all add: secret_def)
  have url: "secret ?E' ''archer-search-url'' = secret E ''archer-search-url''"
    by (simp add: secret_def)
  have page: "\<And>hs t g u q. fetch_page ?E' hs t g u q = fetch_page E hs t g u q"
    by (simp add: fetch_page_def archer_incident_report_xml_def load_template_def response_to_xml_def
             cong: sum.case_cong option.case_cong)
  have fetch: "\<And>t g u. fetch_all_report_pages ?E' t g u = fetch_all_report_pages E t g u"
    by (rule fetch_all_cong) (simp_all add: page)
  have "convert_column ?E' = convert_column E"
    by (intro ext) (simp add: convert_column_def)
  then have enrich: "\<And>df. enrich ?E' df = enrich E df"
    by (simp add: enrich_def Let_def cong: if_cong)
  show "main ?E' = main E"
    by (simp add: main_def auth guid url fetch enrich
             cong: sum.case_cong option.case_cong prod.case_cong if_cong)
next
  fix k
  show "\<exists>page_reqs.
          main_requests k E = auth_reqs @ page_reqs
          \<and> (\<forall>req \<in> set page_reqs.
                \<exists>n. archer_incident_report_xml E tok (INCIDENT_REPORT_TOKEN E) n = Inr (snd req))"
  proof (cases "\<exists>hs url. main_requests k E
                  = auth_reqs @ fetch_rounds k E hs tok (INCIDENT_REPORT_TOKEN E) url 1")
    case True
    then obtain hs url where
      "main_requests k E = auth_reqs @ fetch_rounds k E hs tok (INCIDENT_REPORT_TOKEN E) url 1"
      by blast
    then show ?thesis
      using fetch_rounds_requests [of _ k E hs tok "INCIDENT_REPORT_TOKEN E" url 1] by blast
  next
    case False
    with assms have "main_requests k E = auth_reqs @ []"
      by (auto simp: main_requests_def split: sum.splits)
    then show ?thesis by (intro exI [of _ "[]"]) simp
  qed
next
  fix r
  assume r: "main E = Some r"
  show "\<exists>k. requests r = main_requests k E"
  proof (cases "secret E ''archer-prod-incident-report-guid''")
    case (Inl e)
    with assms r have "requests r = main_requests 0 E"
      by (auto simp: main_def main_requests_def)
    then show ?thesis ..
  next
    case guid: (Inr vault_guid)
    show ?thesis
    proof (cases "secret E ''archer-search-url''")
      case (Inl e)
      with assms r guid have "requests r = main_requests 0 E"
        by (auto simp: main_def main_requests_def)
      then show ?thesis ..
    next
      case url: (Inr url)
      from assms r guid url obtain y
        where f: "fetch_all_report_pages E tok (INCIDENT_REPORT_TOKEN E) url = Some y"
        and rq: "requests r = auth_reqs @ fst y"
        by (auto simp: main_def split: option.splits sum.splits if_splits)
      show ?thesis
      proof (cases "load_headers E ''templates/headers/search_records_by_report.json''")
        case (Inl e)
        with f have "fst y = []" by (auto simp: fetch_all_report_pages_def)
        with rq assms guid url Inl have "requests r = main_requests 0 E"
          by (simp add: main_requests_def)
        then show ?thesis ..
      next
        case (Inr hs)
        with f have "fetch_loop E hs tok (INCIDENT_REPORT_TOKEN E) url 1 [] [] = Some y"
          by (simp add: fetch_all_report_pages_def)
        from fetch_loop_rounds [OF this]
        obtain k where "fst y = fetch_rounds k E hs tok (INCIDENT_REPORT_TOKEN E) url 1" by auto
        with rq assms guid url Inr have "requests r = main_requests k E"
          by (simp add: main_requests_def)
        then show ?thesis ..
      qed
    qed
  qed
qed

theorem page_requests_carry_config_identifier_witness:
  "archer_auth_token incident_world (ARCHER_PROD_URL incident_world)
     = ([session_request], Inr (Some ''TOKEN-1''))
   \<and> get_secret incident_world ''archer-prod-incident-report-guid'' = Some ''VAULT-GUID''
   \<and> main (incident_world\<lparr>get_secret :=
              (get_secret incident_world)(''archer-prod-incident-report-guid'' \<mapsto> ''OTHER-GUID'')\<rparr>)
       = main incident_world
   \<and> (\<exists>page_reqs.
         main_requests 2 incident_world = [session_request] @ page_reqs
         \<and> (\<forall>req \<in> set page_reqs.
               \<exists>n. archer_incident_report_xml incident_world (Some ''TOKEN-1'')
                      (INCIDENT_REPORT_TOKEN incident_world) n = Inr (snd req)))
   \<and> (\<exists>k. [session_request,
             (''https://archer/search'', ''token=TOKEN-1;report=CONFIG-GUID;page=1''),
             (''https://archer/search'', ''token=TOKEN-1;report=CONFIG-GUID;page=2'')]
            = main_requests k incident_world)
   \<and> archer_auth_token no_identifier_world (ARCHER_PROD_URL no_identifier_world)
       = ([session_request], Inr (Some ''TOKEN-1''))
   \<and> get_secret no_identifier_world ''archer-prod-incident-report-guid'' = None
   \<and> main no_identifier_world
       = Some \<lparr> requests = [session_request], stored = None, outcome = SecretsFailed SecretNotFound \<rparr>"
proof -
  have a: "archer_auth_token incident_world (ARCHER_PROD_URL incident_world)
             = ([session_request], Inr (Some ''TOKEN-1''))"
    by (simp add: incident_world_constants incident_world_token)
  have g: "get_secret incident_world ''archer-prod-incident-report-guid'' = Some ''VAULT-GUID''"
    by (rule incident_world_constants)
  note t = page_requests_carry_config_identifier [OF a]
  from t g have b: "main (incident_world\<lparr>get_secret :=
              (get_secret incident_world)(''archer-prod-incident-report-guid'' \<mapsto> ''OTHER-GUID'')\<rparr>)
       = main incident_world"
    by blast
  from t have c: "\<exists>page_reqs.
         main_requests 2 incident_world = [session_request] @ page_reqs
         \<and> (\<forall>req \<in> set page_reqs.
               \<exists>n. archer_incident_report_xml incident_world (Some ''TOKEN-1'')
                      (INCIDENT_REPORT_TOKEN incident_world) n = Inr (snd req))"
    by blast
  from t have "\<forall>r. main incident_world = Some r \<longrightarrow> (\<exists>k. requests r = main_requests k incident_world)"
    by blast
  with incident_world_run
  have d: "\<exists>k. [session_request,
             (''https://archer/search'', ''token=TOKEN-1;report=CONFIG-GUID;page=1''),
             (''https://archer/search'', ''token=TOKEN-1;report=CONFIG-GUID;page=2'')]
            = main_requests k incident_world"
    by fastforce
  have a': "archer_auth_token no_identifier_world (ARCHER_PROD_URL no_identifier_world)
             = ([session_request], Inr (Some ''TOKEN-1''))"
    by (simp add: archer_auth_token_def no_identifier_world_def incident_world_def world_defs xml_defs)
  have g': "get_secret no_identifier_world ''archer-prod-incident-report-guid'' = None"
    by (simp add: no_identifier_world_def)
  from page_requests_carry_config_identifier [OF a'] g'
  have e: "main no_identifier_world
       = Some \<lparr> requests = [session_request], stored = None, outcome = SecretsFailed SecretNotFound \<rparr>"
    by blast
  from a g b c d a' g' e show ?thesis by (intro conjI)
qed

section \<open>Days open\<close>

lemma length_convert_column: "length (convert_column E c df) = length df"
  by (simp add: convert_column_def)

lemma length_fold_convert_column: "length (fold (convert_column E) cs df) = length df"
  by (induction cs arbitrary: df) (simp_all add: length_convert_column)

lemma nth_convert_column:
  "i < length df \<Longrightarrow>
   convert_column E c df ! i =
   AList.update c (Datetime (to_datetime E (map (\<lambda>r. map_of r c) df) i)) (df ! i)"
  by (simp add: convert_column_def nth_enumerate_eq)

lemma other_column_unchanged:
  assumes "k \<noteq> c"
  shows "map (\<lambda>r. map_of r k) (convert_column E c df) = map (\<lambda>r. map_of r k) df"
proof (rule nth_equalityI)
  show "length (map (\<lambda>r. map_of r k) (convert_column E c df)) = length (map (\<lambda>r. map_of r k) df)"
    by (simp add: length_convert_column)
next
  fix i assume "i < length (map (\<lambda>r. map_of r k) (convert_column E c df))"
  then have i: "i < length df" by (simp add: length_convert_column)
  with assms show "map (\<lambda>r. map_of r k) (convert_column E c df) ! i = map (\<lambda>r. map_of r k) df ! i"
    by (simp add: length_convert_column nth_convert_column update_conv')
qed

lemma cell_after_conversions:
  "distinct cs \<Longrightarrow> i < length df \<Longrightarrow>
   map_of (fold (convert_column E) cs df ! i) k =
   (if k \<in> set cs then Some (Datetime (to_datetime E (map (\<lambda>r. map_of r k) df) i))
    else map_of (df ! i) k)"
proof (induction cs arbitrary: df)
  case Nil
  then show ?case by simp
next
  case (Cons c cs)
  from Cons.prems have d: "distinct cs" and c: "c \<notin> set cs" and i: "i < length (convert_column E c df)"
    by (simp_all add: length_convert_column)
  show ?case
  proof (cases "k \<in> set cs")
    case True
    with c have "k \<noteq> c" by auto
    with True Cons.IH [OF d i] show ?thesis
      by (simp add: other_column_unchanged)
  next
    case False
    with Cons.IH [OF d i] Cons.prems(2) show ?thesis
      by (simp add: nth_convert_column update_conv')
  qed
qed

lemma map_of_raw_row:
  "map_of (map (\<lambda>(k, v). (k, Str v)) row) k = map_option Str (map_of row k)"
  by (induction row) auto

lemma raw_column:
  "map (\<lambda>r. map_of r k) (map (map (\<lambda>(k, v). (k, Str v))) df)
   = map (\<lambda>row. map_option Str (map_of row k)) df"
  by (simp add: map_of_raw_row)

text \<open>
  C5. After the enrichment, every row has a \<open>Days Open\<close> cell: the closing date
  minus the creation date when the converted \<open>Date/Time Closed\<close> of the row is not
  null, else the current date minus the creation date, both in days (not-a-number
  when the creation date is null). The dates are those that the conversion of the
  two columns gives the row. Created 2024-01-01 and closed 2024-01-05 gives 4;
  created 2024-01-01, not closed, on 2024-01-10 gives 9.
\<close>

theorem days_open_column:
  assumes "enrich E df = Inr df'" and "i < length df"
  shows "length df' = length df
         \<and> map_of (df' ! i) (Some ''Days Open'')
           = Some (Number
               (case converted_date E df ''Date/Time Closed'' i of
                  Some closed \<Rightarrow> days_between (Some closed) (converted_date E df ''Date Created'' i)
                | None \<Rightarrow> days_between (Some (today E)) (converted_date E df ''Date Created'' i)))
         \<and> (converted_date E df ''Date Created'' i = Some (days_from_civil 2024 1 1)
              \<and> converted_date E df ''Date/Time Closed'' i = Some (days_from_civil 2024 1 5)
              \<longrightarrow> map_of (df' ! i) (Some ''Days Open'') = Some (Number (Some 4)))
         \<and> (converted_date E df ''Date Created'' i = Some (days_from_civil 2024 1 1)
              \<and> converted_date E df ''Date/Time Closed'' i = None
              \<and> today E = days_from_civil 2024 1 10
              \<longrightarrow> map_of (df' ! i) (Some ''Days Open'') = Some (Number (Some 9)))"
proof -
  let ?cols = "columns df"
  let ?dates = "filter (\<lambda>col. contains ''Date'' (fmt col)) ?cols"
  let ?df0 = "map (map (\<lambda>(k, v). (k, Str v))) df"
  let ?df1 = "fold (convert_column E) ?dates ?df0"
  from assms(1) have cl: "Some ''Date/Time Closed'' \<in> set ?cols" and cr: "Some ''Date Created'' \<in> set ?cols"
    and df': "df' = map (\<lambda>row. AList.update (Some ''Days Open'') (Number (days_open (today E) row)) row) ?df1"
    by (auto simp: enrich_def Let_def split: if_splits)
  have len: "length df' = length df" by (simp add: df' length_fold_convert_column)
  have row: "df' ! i = AList.update (Some ''Days Open'') (Number (days_open (today E) (?df1 ! i))) (?df1 ! i)"
    using assms(2) by (simp add: df' length_fold_convert_column)
  have dist: "distinct ?dates" by (simp add: columns_def)
  have i0: "i < length ?df0" using assms(2) by simp
  have "Some ''Date/Time Closed'' \<in> set ?dates" using cl by (simp add: fmt_def)
  with cell_after_conversions [OF dist i0, of E "Some ''Date/Time Closed''"]
  have closed: "date_cell (?df1 ! i) ''Date/Time Closed'' = converted_date E df ''Date/Time Closed'' i"
    by (simp add: date_cell_def converted_date_def raw_column del: map_map)
  have "Some ''Date Created'' \<in> set ?dates" using cr by (simp add: fmt_def)
  with cell_after_conversions [OF dist i0, of E "Some ''Date Created''"]
  have created: "date_cell (?df1 ! i) ''Date Created'' = converted_date E df ''Date Created'' i"
    by (simp add: date_cell_def converted_date_def raw_column del: map_map)
  have cell: "map_of (df' ! i) (Some ''Days Open'')
           = Some (Number
               (case converted_date E df ''Date/Time Closed'' i of
                  Some closed \<Rightarrow> days_between (Some closed) (converted_date E df ''Date Created'' i)
                | None \<Rightarrow> days_between (Some (today E)) (converted_date E df ''Date Created'' i)))"
    by (simp add: row update_conv' days_open_def closed created split: option.splits)
  have four: "days_between (Some (days_from_civil 2024 1 5)) (Some (days_from_civil 2024 1 1)) = Some 4"
    by (simp add: days_between_def days_from_civil_def)
  have nine: "days_between (Some (days_from_civil 2024 1 10)) (Some (days_from_civil 2024 1 1)) = Some 9"
    by (simp add: days_between_def days_from_civil_def)
  from len cell four nine show ?thesis by simp
qed

theorem days_open_column_witness:
  "enrich incident_world
     [[(Some ''Date Created'', ''01/01/2024''), (Some ''Date/Time Closed'', ''05/01/2024'')],
      [(Some ''Date Created'', ''01/01/2024''), (Some ''Date/Time Closed'', [])]]
   = Inr [[(Some ''Date Created'', Datetime (Some 19723)),
           (Some ''Date/Time Closed'', Datetime (Some 19727)),
           (Some ''Days Open'', Number (Some 4))],
          [(Some ''Date Created'', Datetime (Some 19723)),
           (Some ''Date/Time Closed'', Datetime None),
           (Some ''Days Open'', Number (Some 9))]]
   \<and> (1 :: nat) < length [[(Some ''Date Created'', ''01/01/2024''), (Some ''Date/Time Closed'', ''05/01/2024'')],
                           [(Some ''Date Created'', ''01/01/2024''), (Some ''Date/Time Closed'', [])]]
   \<and> converted_date incident_world
        [[(Some ''Date Created'', ''01/01/2024''), (Some ''Date/Time Closed'', ''05/01/2024'')],
         [(Some ''Date Created'', ''01/01/2024''), (Some ''Date/Time Closed'', [])]]
        ''Date Created'' 1 = Some (days_from_civil 2024 1 1)
   \<and> converted_date incident_world
        [[(Some ''Date Created'', ''01/01/2024''), (Some ''Date/Time Closed'', ''05/01/2024'')],
         [(Some ''Date Created'', ''01/01/2024''), (Some ''Date/Time Closed'', [])]]
        ''Date/Time Closed'' 1 = None
   \<and> today incident_world = days_from_civil 2024 1 10
   \<and> map_of ([[(Some ''Date Created'', Datetime (Some 19723)),
                (Some ''Date/Time Closed'', Datetime (Some 19727)),
                (Some ''Days Open'', Number (Some 4))],
               [(Some ''Date Created'', Datetime (Some 19723)),
                (Some ''Date/Time Closed'', Datetime None),
                (Some ''Days Open'', Number (Some 9))]] ! 1) (Some ''Days Open'')
       = Some (Number (Some 9))"
proof -
  let ?df = "[[(Some ''Date Created'', ''01/01/2024''), (Some ''Date/Time Closed'', ''05/01/2024'')],
              [(Some ''Date Created'', ''01/01/2024''), (Some ''Date/Time Closed'', [])]]"
  let ?df' = "[[(Some ''Date Created'', Datetime (Some 19723)),
                (Some ''Date/Time Closed'', Datetime (Some 19727)),
                (Some ''Days Open'', Number (Some 4))],
               [(Some ''Date Created'', Datetime (Some 19723)),
                (Some ''Date/Time Closed'', Datetime None),
                (Some ''Days Open'', Number (Some 9))]]"
  have i: "(1 :: nat) < length ?df" by simp
  have created: "converted_date incident_world ?df ''Date Created'' 1 = Some (days_from_civil 2024 1 1)"
    by (simp add: converted_date_def incident_world_constants)
  have closed: "converted_date incident_world ?df ''Date/Time Closed'' 1 = None"
    by (simp add: converted_date_def incident_world_constants)
  have today: "today incident_world = days_from_civil 2024 1 10"
    by (rule incident_world_constants)
  note imp = days_open_column [OF incident_world_enrich i, THEN conjunct2, THEN conjunct2, THEN conjunct2]
  from imp created closed today
  have cell: "map_of (?df' ! 1) (Some ''Days Open'') = Some (Number (Some 9))"
    by blast
  from incident_world_enrich i created closed today cell show ?thesis by (intro conjI)
qed

end
